theory Spec2Isabelle
  imports Complex_Main
begin

section \<open>Browser environment\<close>

text \<open>
  The part of the browser that the session layer touches: \<^verbatim>\<open>localStorage\<close> (a string
  keyed store of strings), \<^verbatim>\<open>window.location.pathname\<close>, and the assignments made to
  \<^verbatim>\<open>window.location.href\<close>, recorded in order. An assignment starts a navigation; the
  pathname of the running page is not changed by it.
\<close>

record browser =
  localStorage :: "string \<rightharpoonup> string"
  pathname :: string
  href_assignments :: "string list"

definition getItem :: "string \<Rightarrow> browser \<Rightarrow> string option" where
  "getItem k b = localStorage b k"

definition setItem :: "string \<Rightarrow> string \<Rightarrow> browser \<Rightarrow> browser" where
  "setItem k v b = b\<lparr>localStorage := (localStorage b)(k \<mapsto> v)\<rparr>"

definition removeItem :: "string \<Rightarrow> browser \<Rightarrow> browser" where
  "removeItem k b = b\<lparr>localStorage := (localStorage b)(k := None)\<rparr>"

definition assign_href :: "string \<Rightarrow> browser \<Rightarrow> browser" where
  "assign_href target b = b\<lparr>href_assignments := href_assignments b @ [target]\<rparr>"

text \<open>\<^verbatim>\<open>s.startsWith(p)\<close>\<close>

definition startsWith :: "string \<Rightarrow> string \<Rightarrow> bool" where
  "startsWith s p = (take (length p) s = p)"

text \<open>JavaScript truthiness of a \<^verbatim>\<open>string | null\<close> and of a \<^verbatim>\<open>number | undefined\<close>.\<close>

definition truthy_string :: "string option \<Rightarrow> bool" where
  "truthy_string v = (case v of None \<Rightarrow> False | Some s \<Rightarrow> s \<noteq> [])"

definition truthy_number :: "int option \<Rightarrow> bool" where
  "truthy_number v = (case v of None \<Rightarrow> False | Some n \<Rightarrow> n \<noteq> 0)"


section \<open>HTTP client core (api/client.ts)\<close>

text \<open>
  The URL of a request, as the resource clients build it. Template strings such as
  \<^verbatim>\<open>`/api/documents/${documentId}/approve`\<close> are kept symbolic.
\<close>

datatype endpoint =
    AuthLogin | AuthRegister
  | Documents | DocumentById int | DocumentApprove int | DocumentReclassify int
  | DocumentArchive int
  | CrawlStart | CrawlStatus int
  | StatsPipeline | StatsDashboard
  | AuditLog

datatype http_method = GET | POST | PUT | DELETE

datatype param_value = PString string | PNumber int

record request =
  req_method :: http_method
  req_url :: endpoint
  req_params :: "(string \<times> param_value) list"
  req_authorization :: "string option"

text \<open>
  An \<^verbatim>\<open>AxiosError\<close>: \<open>err_status\<close> is \<^verbatim>\<open>error.response?.status\<close>, absent when no response
  arrived (network failure, timeout); \<open>err_detail\<close> is \<^verbatim>\<open>error.response?.data?.detail\<close>;
  \<open>err_request\<close> is the request that failed.
\<close>

record axios_error =
  err_status :: "int option"
  err_detail :: "string option"
  err_request :: request

text \<open>
  The network and the server are the environment: a function from the request that is sent
  to what axios settles it with before the response interceptors run.
\<close>

type_synonym 'a transport = "request \<Rightarrow> axios_error + 'a"

text \<open>
  \<^verbatim>\<open>response.data\<close> of a fulfilled call whose body the client reads field by field. The
  client is created without a \<^verbatim>\<open>responseType\<close>, so axios parses the body as JSON when it
  can and otherwise fulfils with the body as it came, a string: a body that is not valid
  JSON does not reject.
\<close>

datatype 'a body = Json 'a | Text string

definition mk_request :: "http_method \<Rightarrow> endpoint \<Rightarrow> (string \<times> param_value) list \<Rightarrow> request" where
  "mk_request m u ps =
     \<lparr>req_method = m, req_url = u, req_params = ps, req_authorization = None\<rparr>"

text \<open>Request interceptor: attach the bearer token when one is stored.\<close>

definition request_interceptor :: "browser \<Rightarrow> request \<Rightarrow> request" where
  "request_interceptor b config =
     (let token = getItem ''access_token'' b
      in if truthy_string token
         then config\<lparr>req_authorization := Some (''Bearer '' @ the token)\<rparr>
         else config)"

text \<open>
  Response interceptor, rejection handler. The result is the error the returned promise
  rejects with, and the browser after the handler's side effects.
\<close>

definition response_error_interceptor :: "axios_error \<Rightarrow> browser \<Rightarrow> axios_error \<times> browser" where
  "response_error_interceptor error b =
     (if err_status error = Some 401
      then let b1 = removeItem ''access_token'' b;
               b2 = removeItem ''user'' b1;
               b3 = (if \<not> startsWith (pathname b2) ''/login''
                     then assign_href ''/login'' b2 else b2)
           in (error, b3)
      else (error, b))"

text \<open>
  One call through the client (\<^verbatim>\<open>client.get\<close>, \<^verbatim>\<open>client.post\<close>, ...): the request
  interceptor, the transport, then the response interceptors. A fulfilled response is
  passed through unchanged.
\<close>

definition client_send :: "'a transport \<Rightarrow> request \<Rightarrow> browser \<Rightarrow> (axios_error + 'a) \<times> browser" where
  "client_send net config b =
     (case net (request_interceptor b config) of
        Inr response \<Rightarrow> (Inr response, b)
      | Inl error \<Rightarrow>
          (case response_error_interceptor error b of (error', b') \<Rightarrow> (Inl error', b')))"

text \<open>The test the interceptor uses for "already on the login page".\<close>

definition on_login_view :: "browser \<Rightarrow> bool" where
  "on_login_view b = startsWith (pathname b) ''/login''"


section \<open>Resource clients\<close>

text \<open>
  JSON numbers are modelled as \<^typ>\<open>int\<close>; an optional or missing field is an
  \<^typ>\<open>'a option\<close>, \<open>None\<close> standing for \<^verbatim>\<open>undefined\<close>. A resource client takes the
  transport as an argument and returns what its promise settles with (\<open>Inl\<close> for a
  rejection) together with the browser after the call.
\<close>

text \<open>\<^verbatim>\<open>a || d\<close> on numbers: \<open>d\<close> when \<open>a\<close> is missing or \<open>0\<close>.\<close>

definition or_number :: "int option \<Rightarrow> int \<Rightarrow> int" where
  "or_number a d = (if truthy_number a then the a else d)"

text \<open>
  \<^verbatim>\<open>Math.ceil(a / b)\<close> on integers, for \<open>b \<noteq> 0\<close> (the callers below never pass \<open>0\<close>);
  \<open>div\<close> on \<^typ>\<open>int\<close> rounds towards minus infinity.
\<close>

definition ceil_div :: "int \<Rightarrow> int \<Rightarrow> int" where
  "ceil_div a b = - ((- a) div b)"

subsection \<open>api/auth.ts\<close>

datatype role = admin | reviewer

record user =
  user_id :: int
  user_username :: string
  user_name :: string
  user_role :: role
  user_country :: string
  user_created_at :: "string option"

text \<open>
  \<open>cred_password\<close> is optional because \<^verbatim>\<open>AuthProvider.login\<close> builds the credentials with
  \<^verbatim>\<open>password!\<close>, which asserts the type without checking the value.
\<close>

record login_credentials =
  cred_username :: string
  cred_password :: "string option"
  cred_country :: "string option"

record login_response =
  access_token :: string
  token_type :: string
  login_user :: user

record register_data =
  reg_username :: string
  reg_password :: string
  reg_name :: string
  reg_role :: "string option"
  reg_country :: "string option"

definition authApi_login ::
  "(login_credentials \<Rightarrow> login_response transport) \<Rightarrow> login_credentials \<Rightarrow> browser
     \<Rightarrow> (axios_error + login_response) \<times> browser" where
  "authApi_login net credentials b = client_send (net credentials) (mk_request POST AuthLogin []) b"

definition authApi_register ::
  "(register_data \<Rightarrow> user transport) \<Rightarrow> register_data \<Rightarrow> browser
     \<Rightarrow> (axios_error + user) \<times> browser" where
  "authApi_register net data b = client_send (net data) (mk_request POST AuthRegister []) b"

subsection \<open>api/documents.ts\<close>

record document_filters =
  f_status :: "string option"
  f_classification :: "string option"
  f_country :: "string option"
  f_min_confidence :: "int option"
  f_skip :: "int option"
  f_limit :: "int option"
  f_page :: "int option"
  f_search :: "string option"
  f_crawl_session_id :: "int option"

text \<open>
  The JSON body of \<^verbatim>\<open>GET /api/documents\<close> as far as \<^verbatim>\<open>getDocuments\<close> reads it or lets it
  through the spread \<^verbatim>\<open>...data\<close>. Whatever the server sends under \<^verbatim>\<open>items\<close>, \<^verbatim>\<open>pages\<close>,
  \<^verbatim>\<open>page\<close> or \<^verbatim>\<open>page_size\<close> is overwritten by the fields listed after the spread.
\<close>

record 'd document_list_data =
  d_documents :: "'d list option"
  d_total :: "int option"
  d_limit :: "int option"
  d_offset :: "int option"
  d_has_more :: "bool option"

text \<open>
  The envelope. \<open>r_index_chars\<close> holds what the spread \<^verbatim>\<open>...data\<close> copies from a body
  that is a string: its characters, under the keys \<^verbatim>\<open>0\<close>, \<^verbatim>\<open>1\<close>, ... It is empty when
  the body is an object.
\<close>

record 'd document_list_response =
  r_documents :: "'d list"
  r_total :: int
  r_limit :: int
  r_offset :: int
  r_has_more :: bool
  r_items :: "'d list"
  r_pages :: int
  r_page :: int
  r_page_size :: int
  r_index_chars :: string

definition EMPTY_RESPONSE :: "'d document_list_response" where
  "EMPTY_RESPONSE =
     \<lparr>r_documents = [], r_total = 0, r_limit = 20, r_offset = 0, r_has_more = False,
      r_items = [], r_pages = 1, r_page = 1, r_page_size = 20, r_index_chars = []\<rparr>"

definition opt_param :: "string \<Rightarrow> ('a \<Rightarrow> param_value) \<Rightarrow> 'a option \<Rightarrow> (string \<times> param_value) list" where
  "opt_param key conv v = (case v of None \<Rightarrow> [] | Some x \<Rightarrow> [(key, conv x)])"

text \<open>The query parameters: one entry for every filter that is set.\<close>

definition document_params :: "document_filters \<Rightarrow> (string \<times> param_value) list" where
  "document_params filters =
     opt_param ''status'' PString (f_status filters) @
     opt_param ''classification'' PString (f_classification filters) @
     opt_param ''country'' PString (f_country filters) @
     opt_param ''min_confidence'' PNumber (f_min_confidence filters) @
     opt_param ''skip'' PNumber (f_skip filters) @
     opt_param ''limit'' PNumber (f_limit filters) @
     opt_param ''page'' PNumber (f_page filters) @
     opt_param ''search'' PString (f_search filters) @
     opt_param ''crawl_session_id'' PNumber (f_crawl_session_id filters)"

definition no_filters :: document_filters where
  "no_filters =
     \<lparr>f_status = None, f_classification = None, f_country = None, f_min_confidence = None,
      f_skip = None, f_limit = None, f_page = None, f_search = None,
      f_crawl_session_id = None\<rparr>"

definition empty_data :: "'d document_list_data" where
  "empty_data =
     \<lparr>d_documents = None, d_total = None, d_limit = None, d_offset = None, d_has_more = None\<rparr>"

text \<open>
  The \<^verbatim>\<open>try\<close> block of \<^verbatim>\<open>getDocuments\<close> after the response has arrived, for a JSON
  body (\<open>None\<close> is \<^verbatim>\<open>null\<close>).
\<close>

definition normalize_documents ::
  "document_filters \<Rightarrow> 'd document_list_data option \<Rightarrow> 'd document_list_response" where
  "normalize_documents filters body =
     (let data = (case body of None \<Rightarrow> empty_data | Some d \<Rightarrow> d);
          docs = (case d_documents data of None \<Rightarrow> [] | Some ds \<Rightarrow> ds);
          total = or_number (d_total data) 0;
          limit = or_number (d_limit data) (or_number (f_limit filters) 20);
          c = ceil_div total limit
      in \<lparr>r_documents = docs,
          r_total = total,
          r_limit = (case d_limit data of None \<Rightarrow> r_limit (EMPTY_RESPONSE :: 'd document_list_response) | Some l \<Rightarrow> l),
          r_offset = (case d_offset data of None \<Rightarrow> r_offset (EMPTY_RESPONSE :: 'd document_list_response) | Some off \<Rightarrow> off),
          r_has_more = (case d_has_more data of None \<Rightarrow> r_has_more (EMPTY_RESPONSE :: 'd document_list_response) | Some h \<Rightarrow> h),
          r_items = docs,
          r_pages = (if c = 0 then 1 else c),
          r_page = or_number (f_page filters) 1,
          r_page_size = limit,
          r_index_chars = []\<rparr>)"

text \<open>
  The same block for any body. A string has none of the fields that are read, so every
  default applies, whether \<^verbatim>\<open>response.data || {}\<close> keeps it or not; the spread copies its
  characters.
\<close>

definition documents_envelope ::
  "document_filters \<Rightarrow> 'd document_list_data option body \<Rightarrow> 'd document_list_response" where
  "documents_envelope filters data =
     (case data of
        Json body \<Rightarrow> normalize_documents filters body
      | Text s \<Rightarrow> (normalize_documents filters None)\<lparr>r_index_chars := s\<rparr>)"

definition getDocuments ::
  "'d document_list_data option body transport \<Rightarrow> document_filters \<Rightarrow> browser
     \<Rightarrow> (axios_error + 'd document_list_response) \<times> browser" where
  "getDocuments net filters b =
     (case client_send net (mk_request GET Documents (document_params filters)) b of
        (Inr data, b') \<Rightarrow> (Inr (documents_envelope filters data), b')
      | (Inl error, b') \<Rightarrow> (Inr EMPTY_RESPONSE, b'))"

definition getDocument ::
  "'d transport \<Rightarrow> int \<Rightarrow> browser \<Rightarrow> (axios_error + 'd) \<times> browser" where
  "getDocument net documentId b = client_send net (mk_request GET (DocumentById documentId) []) b"

definition approveDocument ::
  "'d transport \<Rightarrow> int \<Rightarrow> browser \<Rightarrow> (axios_error + 'd) \<times> browser" where
  "approveDocument net documentId b =
     client_send net (mk_request PUT (DocumentApprove documentId) []) b"

definition reclassifyDocument ::
  "(string \<Rightarrow> 'd transport) \<Rightarrow> int \<Rightarrow> string \<Rightarrow> browser \<Rightarrow> (axios_error + 'd) \<times> browser" where
  "reclassifyDocument net documentId classification b =
     client_send (net classification) (mk_request PUT (DocumentReclassify documentId) []) b"

definition deleteDocument ::
  "'a transport \<Rightarrow> int \<Rightarrow> browser \<Rightarrow> (axios_error + unit) \<times> browser" where
  "deleteDocument net documentId b =
     (case client_send net (mk_request DELETE (DocumentById documentId) []) b of
        (Inr response, b') \<Rightarrow> (Inr (), b')
      | (Inl error, b') \<Rightarrow> (Inl error, b'))"

definition archiveDocument ::
  "'d transport \<Rightarrow> int \<Rightarrow> browser \<Rightarrow> (axios_error + 'd) \<times> browser" where
  "archiveDocument net documentId b =
     client_send net (mk_request PUT (DocumentArchive documentId) []) b"

subsection \<open>api/crawl.ts\<close>

record crawl_config =
  cfg_country :: string
  cfg_seed_urls :: "string list"
  cfg_policy_types :: "string list"
  cfg_keywords :: "string list"
  cfg_max_pages :: int
  cfg_max_time :: int

record crawl =
  crawl_id :: int
  crawl_status :: string
  crawl_message :: string
  crawl_active_crawls :: int
  crawl_max_concurrent_crawls :: int

record crawl_status_response =
  cs_id :: int
  cs_status :: string
  cs_country :: string
  cs_progress_pct :: int
  cs_pages_scanned :: int
  cs_pdfs_found :: int
  cs_pdfs_downloaded :: int
  cs_pdfs_filtered :: int
  cs_errors_count :: int
  cs_started_at :: "string option"
  cs_completed_at :: "string option"

definition startCrawl ::
  "(crawl_config \<Rightarrow> crawl transport) \<Rightarrow> crawl_config \<Rightarrow> browser \<Rightarrow> (axios_error + crawl) \<times> browser" where
  "startCrawl net config b = client_send (net config) (mk_request POST CrawlStart []) b"

definition getCrawlStatus ::
  "crawl_status_response transport \<Rightarrow> int \<Rightarrow> browser
     \<Rightarrow> (axios_error + crawl_status_response) \<times> browser" where
  "getCrawlStatus net crawlId b = client_send net (mk_request GET (CrawlStatus crawlId) []) b"

subsection \<open>api/stats.ts\<close>

record pipeline_stats_data =
  ps_stages :: "(string \<times> int) list option"
  ps_funnel_rates :: "(string \<times> int) list option"
  ps_total_processed :: "int option"
  ps_avg_confidence :: "int option"
  ps_error_rate :: "int option"

record pipeline_stats =
  stages :: "(string \<times> int) list"
  funnel_rates :: "(string \<times> int) list"
  total_processed :: int
  avg_confidence :: int
  error_rate :: int
  stats_index_chars :: string

definition EMPTY_PIPELINE :: pipeline_stats where
  "EMPTY_PIPELINE =
     \<lparr>stages = [], funnel_rates = [], total_processed = 0, avg_confidence = 0, error_rate = 0,
      stats_index_chars = []\<rparr>"

text \<open>\<^verbatim>\<open>{ ...defaults, ...data }\<close>, field by field: a field of the body wins when it is there.\<close>

definition spread :: "'a \<Rightarrow> 'a option \<Rightarrow> 'a" where
  "spread dflt v = (case v of None \<Rightarrow> dflt | Some x \<Rightarrow> x)"

definition getPipelineStats ::
  "pipeline_stats_data body transport \<Rightarrow> browser \<Rightarrow> (axios_error + pipeline_stats) \<times> browser" where
  "getPipelineStats net b =
     (case client_send net (mk_request GET StatsPipeline []) b of
        (Inr (Json data), b') \<Rightarrow>
          (Inr \<lparr>stages = spread (stages EMPTY_PIPELINE) (ps_stages data),
                funnel_rates = spread (funnel_rates EMPTY_PIPELINE) (ps_funnel_rates data),
                total_processed = spread (total_processed EMPTY_PIPELINE) (ps_total_processed data),
                avg_confidence = spread (avg_confidence EMPTY_PIPELINE) (ps_avg_confidence data),
                error_rate = spread (error_rate EMPTY_PIPELINE) (ps_error_rate data),
                stats_index_chars = []\<rparr>, b')
      | (Inr (Text s), b') \<Rightarrow> (Inr (EMPTY_PIPELINE\<lparr>stats_index_chars := s\<rparr>), b')
      | (Inl error, b') \<Rightarrow> (Inr EMPTY_PIPELINE, b'))"

subsection \<open>api/audit.ts\<close>

record audit_log_filters =
  af_user_id :: "int option"
  af_document_id :: "int option"
  af_action :: "string option"
  af_skip :: "int option"
  af_limit :: "int option"

record 'e audit_log_data =
  ad_entries :: "'e list option"
  ad_total :: "int option"
  ad_page :: "int option"
  ad_page_size :: "int option"

record 'e audit_log_list_response =
  entries :: "'e list"
  total :: int
  page :: int
  page_size :: int
  index_chars :: string

definition EMPTY_AUDIT_RESPONSE :: "'e audit_log_list_response" where
  "EMPTY_AUDIT_RESPONSE =
     \<lparr>entries = [], total = 0, page = 1, page_size = 50, index_chars = []\<rparr>"

definition audit_params :: "audit_log_filters \<Rightarrow> (string \<times> param_value) list" where
  "audit_params filters =
     opt_param ''user_id'' PNumber (af_user_id filters) @
     opt_param ''document_id'' PNumber (af_document_id filters) @
     opt_param ''action'' PString (af_action filters) @
     opt_param ''skip'' PNumber (af_skip filters) @
     opt_param ''limit'' PNumber (af_limit filters)"

definition normalize_audit :: "'e audit_log_data \<Rightarrow> 'e audit_log_list_response" where
  "normalize_audit data =
     \<lparr>entries = spread (entries (EMPTY_AUDIT_RESPONSE :: 'e audit_log_list_response)) (ad_entries data),
      total = spread (total (EMPTY_AUDIT_RESPONSE :: 'e audit_log_list_response)) (ad_total data),
      page = spread (page (EMPTY_AUDIT_RESPONSE :: 'e audit_log_list_response)) (ad_page data),
      page_size = spread (page_size (EMPTY_AUDIT_RESPONSE :: 'e audit_log_list_response)) (ad_page_size data),
      index_chars = []\<rparr>"

text \<open>
  \<^verbatim>\<open>{ ...EMPTY_RESPONSE, ...response.data }\<close> for any body: a string has none of the four
  fields, and the spread copies its characters into \<open>index_chars\<close>.
\<close>

definition audit_envelope :: "'e audit_log_data body \<Rightarrow> 'e audit_log_list_response" where
  "audit_envelope data =
     (case data of
        Json d \<Rightarrow> normalize_audit d
      | Text s \<Rightarrow> EMPTY_AUDIT_RESPONSE\<lparr>index_chars := s\<rparr>)"

definition getAuditLog ::
  "'e audit_log_data body transport \<Rightarrow> audit_log_filters \<Rightarrow> browser
     \<Rightarrow> (axios_error + 'e audit_log_list_response) \<times> browser" where
  "getAuditLog net filters b =
     (case client_send net (mk_request GET AuditLog (audit_params filters)) b of
        (Inr data, b') \<Rightarrow> (Inr (audit_envelope data), b')
      | (Inl error, b') \<Rightarrow> (Inr EMPTY_AUDIT_RESPONSE, b'))"


section \<open>Session controller (context/AuthContext.tsx)\<close>

text \<open>The component state of \<^verbatim>\<open>AuthProvider\<close>, with the initial values of \<^verbatim>\<open>useState\<close>.\<close>

record auth_state =
  st_user :: "user option"
  st_token :: "string option"
  st_loading :: bool

definition initial_auth :: auth_state where
  "initial_auth = \<lparr>st_user = None, st_token = None, st_loading = True\<rparr>"

definition setUser :: "user option \<Rightarrow> auth_state \<Rightarrow> auth_state" where
  "setUser u a = a\<lparr>st_user := u\<rparr>"

definition setToken :: "string option \<Rightarrow> auth_state \<Rightarrow> auth_state" where
  "setToken t a = a\<lparr>st_token := t\<rparr>"

definition setLoading :: "bool \<Rightarrow> auth_state \<Rightarrow> auth_state" where
  "setLoading l a = a\<lparr>st_loading := l\<rparr>"

datatype js_exception = SyntaxError

text \<open>
  The mount effect. \<^verbatim>\<open>JSON.parse\<close> is a parameter: \<open>Inl SyntaxError\<close> when it throws,
  \<open>Inr None\<close> when the text denotes \<^verbatim>\<open>null\<close>, \<open>Inr (Some u)\<close> for a user object.
\<close>

definition boot ::
  "(string \<Rightarrow> js_exception + user option) \<Rightarrow> browser \<Rightarrow> auth_state \<Rightarrow> js_exception + auth_state" where
  "boot json_parse b a =
     (let storedUser = getItem ''user'' b;
          storedToken = getItem ''access_token'' b
      in case (if truthy_string storedUser
               then (case json_parse (the storedUser) of
                       Inl ex \<Rightarrow> Inl ex
                     | Inr u \<Rightarrow> Inr (setUser u a))
               else Inr a) of
           Inl ex \<Rightarrow> Inl ex
         | Inr a1 \<Rightarrow>
             Inr (setLoading False
                    (if truthy_string storedToken then setToken storedToken a1 else a1)))"

datatype login_arg = Username string | Credentials login_credentials

fun credentials_of :: "login_arg \<Rightarrow> string option \<Rightarrow> string option \<Rightarrow> login_credentials" where
  "credentials_of (Username u) password country =
     \<lparr>cred_username = u, cred_password = password, cred_country = country\<rparr>"
| "credentials_of (Credentials c) password country = c"

text \<open>
  \<^verbatim>\<open>login\<close>. Nothing is written before the \<^verbatim>\<open>await\<close>, and the statements after it run
  without interruption. \<^verbatim>\<open>JSON.stringify\<close> is a parameter.
\<close>

definition login ::
  "(user \<Rightarrow> string) \<Rightarrow> (login_credentials \<Rightarrow> login_response transport) \<Rightarrow>
     login_arg \<Rightarrow> string option \<Rightarrow> string option \<Rightarrow> browser \<times> auth_state
     \<Rightarrow> (axios_error + unit) \<times> (browser \<times> auth_state)" where
  "login json_stringify net usernameOrCredentials password country w =
     (case w of (b, a) \<Rightarrow>
        (let credentials = credentials_of usernameOrCredentials password country
         in case authApi_login net credentials b of
              (Inl error, b') \<Rightarrow> (Inl error, (b', a))
            | (Inr response, b') \<Rightarrow>
                (let b1 = setItem ''access_token'' (access_token response) b';
                     b2 = setItem ''user'' (json_stringify (login_user response)) b1;
                     a1 = setUser (Some (login_user response)) a;
                     a2 = setToken (Some (access_token response)) a1
                 in (Inr (), (b2, a2)))))"

definition logout :: "browser \<times> auth_state \<Rightarrow> browser \<times> auth_state" where
  "logout w =
     (case w of (b, a) \<Rightarrow>
        (removeItem ''user'' (removeItem ''access_token'' b), setToken None (setUser None a)))"

definition register ::
  "(register_data \<Rightarrow> user transport) \<Rightarrow> register_data \<Rightarrow> browser \<times> auth_state
     \<Rightarrow> (axios_error + user) \<times> (browser \<times> auth_state)" where
  "register net data w =
     (case w of (b, a) \<Rightarrow>
        (case authApi_register net data b of (result, b') \<Rightarrow> (result, (b', a))))"

text \<open>\<^verbatim>\<open>!!user && !!token\<close> and \<^verbatim>\<open>user?.role === 'admin'\<close>\<close>

definition isAuthenticated :: "auth_state \<Rightarrow> bool" where
  "isAuthenticated a = (st_user a \<noteq> None \<and> truthy_string (st_token a))"

definition isAdmin :: "auth_state \<Rightarrow> bool" where
  "isAdmin a = (case st_user a of None \<Rightarrow> False | Some u \<Rightarrow> user_role u = admin)"


section \<open>Job poller (pages/CrawlPage.tsx, pages/Progress.tsx)\<close>

text \<open>
  Both pages keep the same state: the status snapshot, the error text, the ref holding the
  handle of the last interval, and, from the event loop, the intervals that have not been
  cleared and the status requests that have not settled. \<open>requests\<close> records every call of
  \<^verbatim>\<open>getCrawlStatus\<close> in the order of issue; a request is named by its position there.
  The settled value of a request is what \<open>getCrawlStatus\<close> above produces.
\<close>

datatype awaiting = CrawlPageFirst | ProgressFirst | IntervalTick

record 'id poller =
  snapshot :: "crawl_status_response option"
  error_message :: string
  pollRef :: "nat option"
  intervals :: "(nat \<times> 'id) list"
  handles_issued :: nat
  pending :: "(nat \<times> awaiting) list"
  requests :: "'id list"
  cleanup_registered :: bool

definition init_poller :: "'id poller" where
  "init_poller =
     \<lparr>snapshot = None, error_message = [], pollRef = None, intervals = [],
      handles_issued = 0, pending = [], requests = [], cleanup_registered = False\<rparr>"

definition is_terminal :: "string \<Rightarrow> bool" where
  "is_terminal status = (status = ''completed'' \<or> status = ''failed'' \<or> status = ''stopped'')"

text \<open>\<^verbatim>\<open>setInterval\<close> returns a fresh positive handle; \<^verbatim>\<open>clearInterval\<close> forgets one.\<close>

definition setInterval :: "'id \<Rightarrow> 'id poller \<Rightarrow> nat \<times> 'id poller" where
  "setInterval i s =
     (let h = Suc (handles_issued s)
      in (h, s\<lparr>intervals := intervals s @ [(h, i)], handles_issued := h\<rparr>))"

definition clearInterval :: "nat \<Rightarrow> 'id poller \<Rightarrow> 'id poller" where
  "clearInterval h s = s\<lparr>intervals := filter (\<lambda>x. fst x \<noteq> h) (intervals s)\<rparr>"

text \<open>\<^verbatim>\<open>if (pollRef.current) clearInterval(pollRef.current)\<close>\<close>

definition clear_pollRef :: "'id poller \<Rightarrow> 'id poller" where
  "clear_pollRef s =
     (case pollRef s of
        None \<Rightarrow> s
      | Some h \<Rightarrow> if h \<noteq> 0 then clearInterval h s else s)"

text \<open>A call of \<^verbatim>\<open>getCrawlStatus(i)\<close> whose promise is awaited by the code \<open>k\<close>.\<close>

definition request_status :: "'id \<Rightarrow> awaiting \<Rightarrow> 'id poller \<Rightarrow> 'id poller" where
  "request_status i k s =
     s\<lparr>requests := requests s @ [i], pending := pending s @ [(length (requests s), k)]\<rparr>"

text \<open>The interval callback up to its \<^verbatim>\<open>await\<close>. A cleared interval does not fire.\<close>

definition interval_fire :: "nat \<Rightarrow> 'id poller \<Rightarrow> 'id poller" where
  "interval_fire h s =
     (case map_of (intervals s) h of
        None \<Rightarrow> s
      | Some i \<Rightarrow> request_status i IntervalTick s)"

text \<open>The code that runs when a request settles, by who awaits it.\<close>

definition resume :: "awaiting \<Rightarrow> axios_error + crawl_status_response \<Rightarrow> 'id poller \<Rightarrow> 'id poller" where
  "resume k outcome s =
     (case k of
        CrawlPageFirst \<Rightarrow>
          (case outcome of Inr status \<Rightarrow> s\<lparr>snapshot := Some status\<rparr> | Inl error \<Rightarrow> s)
      | ProgressFirst \<Rightarrow>
          (case outcome of
             Inr status \<Rightarrow> s\<lparr>snapshot := Some status\<rparr>
           | Inl error \<Rightarrow> s\<lparr>error_message := ''Could not load crawl status''\<rparr>)
      | IntervalTick \<Rightarrow>
          (case outcome of
             Inr status \<Rightarrow>
               (let s1 = s\<lparr>snapshot := Some status\<rparr>
                in if is_terminal (cs_status status) then clear_pollRef s1 else s1)
           | Inl error \<Rightarrow> clear_pollRef s))"

definition settle :: "nat \<Rightarrow> axios_error + crawl_status_response \<Rightarrow> 'id poller \<Rightarrow> 'id poller" where
  "settle r outcome s =
     (case map_of (pending s) r of
        None \<Rightarrow> s
      | Some k \<Rightarrow> resume k outcome (s\<lparr>pending := filter (\<lambda>x. fst x \<noteq> r) (pending s)\<rparr>))"

text \<open>What the event loop does on its own: an interval fires, or a request settles.\<close>

datatype async_event = Fire nat | Settle nat "axios_error + crawl_status_response"

fun async_step :: "async_event \<Rightarrow> 'id poller \<Rightarrow> 'id poller" where
  "async_step (Fire h) s = interval_fire h s"
| "async_step (Settle r outcome) s = settle r outcome s"

subsection \<open>CrawlPage\<close>

definition pollStatus :: "'id \<Rightarrow> 'id poller \<Rightarrow> 'id poller" where
  "pollStatus crawlId s =
     (let s1 = request_status crawlId CrawlPageFirst s;
          s2 = clear_pollRef s1
      in case setInterval crawlId s2 of (h, s3) \<Rightarrow> s3\<lparr>pollRef := Some h\<rparr>)"

definition crawlpage_cleanup :: "'id poller \<Rightarrow> 'id poller" where
  "crawlpage_cleanup s = clear_pollRef s"

datatype 'id crawlpage_event = PollStatus 'id | CrawlPageCleanup | CrawlPageAsync async_event

fun crawlpage_step :: "'id crawlpage_event \<Rightarrow> 'id poller \<Rightarrow> 'id poller" where
  "crawlpage_step (PollStatus crawlId) s = pollStatus crawlId s"
| "crawlpage_step CrawlPageCleanup s = crawlpage_cleanup s"
| "crawlpage_step (CrawlPageAsync ev) s = async_step ev s"

fun crawlpage_run :: "'id crawlpage_event list \<Rightarrow> 'id poller \<Rightarrow> 'id poller" where
  "crawlpage_run [] s = s"
| "crawlpage_run (ev # evs) s = crawlpage_run evs (crawlpage_step ev s)"

fun crawlpage_no_start :: "'id crawlpage_event \<Rightarrow> bool" where
  "crawlpage_no_start (PollStatus crawlId) = False"
| "crawlpage_no_start CrawlPageCleanup = True"
| "crawlpage_no_start (CrawlPageAsync ev) = True"

subsection \<open>Progress\<close>

text \<open>
  The effect body for a value of \<^verbatim>\<open>crawlIdParam\<close>; \<^verbatim>\<open>Number\<close> is a parameter. The effect
  returns a cleanup function only when it started a poll.
\<close>

definition progress_effect :: "(string \<Rightarrow> 'id) \<Rightarrow> string option \<Rightarrow> 'id poller \<Rightarrow> 'id poller" where
  "progress_effect num crawlIdParam s =
     (if \<not> truthy_string crawlIdParam then s\<lparr>cleanup_registered := False\<rparr>
      else let i = num (the crawlIdParam);
               s1 = request_status i ProgressFirst s
           in case setInterval i s1 of
                (h, s2) \<Rightarrow> s2\<lparr>pollRef := Some h, cleanup_registered := True\<rparr>)"

definition progress_cleanup :: "'id poller \<Rightarrow> 'id poller" where
  "progress_cleanup s = clear_pollRef s"

text \<open>
  React runs the cleanup function of the previous run of an effect, when that run returned
  one, before the next run and at unmount.
\<close>

definition run_registered_cleanup :: "'id poller \<Rightarrow> 'id poller" where
  "run_registered_cleanup s =
     (if cleanup_registered s then (progress_cleanup s)\<lparr>cleanup_registered := False\<rparr> else s)"

datatype progress_event =
  ProgressEffect "string option" | ProgressCleanup | ProgressAsync async_event

fun progress_step :: "(string \<Rightarrow> 'id) \<Rightarrow> progress_event \<Rightarrow> 'id poller \<Rightarrow> 'id poller" where
  "progress_step num (ProgressEffect crawlIdParam) s =
     progress_effect num crawlIdParam (run_registered_cleanup s)"
| "progress_step num ProgressCleanup s = run_registered_cleanup s"
| "progress_step num (ProgressAsync ev) s = async_step ev s"

fun progress_run :: "(string \<Rightarrow> 'id) \<Rightarrow> progress_event list \<Rightarrow> 'id poller \<Rightarrow> 'id poller" where
  "progress_run num [] s = s"
| "progress_run num (ev # evs) s = progress_run num evs (progress_step num ev s)"

fun progress_no_start :: "progress_event \<Rightarrow> bool" where
  "progress_no_start (ProgressEffect crawlIdParam) = False"
| "progress_no_start ProgressCleanup = True"
| "progress_no_start (ProgressAsync ev) = True"


section \<open>Invariants of the poller\<close>

text \<open>
  Every interval that has not been cleared is the one \<open>pollRef\<close> holds. On Progress an
  interval is live only while a cleanup function is registered for it.
\<close>

definition one_interval :: "'id poller \<Rightarrow> bool" where
  "one_interval s = (\<forall>x \<in> set (intervals s). pollRef s = Some (fst x) \<and> fst x \<noteq> 0)"

definition progress_inv :: "'id poller \<Rightarrow> bool" where
  "progress_inv s = (one_interval s \<and> (\<not> cleanup_registered s \<longrightarrow> intervals s = []))"

text \<open>No interval is live and no request is in flight.\<close>

definition at_rest :: "'id poller \<Rightarrow> bool" where
  "at_rest s = (intervals s = [] \<and> pending s = [])"


section \<open>Concrete inputs\<close>

definition example_user :: user where
  "example_user =
     \<lparr>user_id = 1, user_username = ''admin'', user_name = ''Admin User'', user_role = admin,
      user_country = ''NZ'', user_created_at = None\<rparr>"

definition show_user :: "user \<Rightarrow> string" where
  "show_user u = user_username u"

definition empty_browser :: browser where
  "empty_browser = \<lparr>localStorage = Map.empty, pathname = ''/login'', href_assignments = []\<rparr>"

definition signed_in_browser :: browser where
  "signed_in_browser =
     \<lparr>localStorage = [''access_token'' \<mapsto> ''tok'', ''user'' \<mapsto> ''admin''],
      pathname = ''/dashboard'', href_assignments = []\<rparr>"

definition status_error :: "int \<Rightarrow> request \<Rightarrow> axios_error" where
  "status_error code config = \<lparr>err_status = Some code, err_detail = None, err_request = config\<rparr>"

definition network_error :: axios_error where
  "network_error =
     \<lparr>err_status = None, err_detail = None, err_request = mk_request GET (CrawlStatus 7) []\<rparr>"

text \<open>
  Transports that answer every request with the given status or with the given body, and
  ones that answer a login with a token or with a status.
\<close>

definition failing :: "int \<Rightarrow> 'a transport" where
  "failing code config = Inl (status_error code config)"

definition answering :: "'a \<Rightarrow> 'a transport" where
  "answering body config = Inr body"

definition failing_start :: "int \<Rightarrow> crawl_config \<Rightarrow> crawl transport" where
  "failing_start code config = failing code"

definition accepting :: "string \<Rightarrow> login_credentials \<Rightarrow> login_response transport" where
  "accepting tok credentials config =
     Inr \<lparr>access_token = tok, token_type = ''bearer'', login_user = example_user\<rparr>"

definition rejecting :: "int \<Rightarrow> login_credentials \<Rightarrow> login_response transport" where
  "rejecting code credentials config = Inl (status_error code config)"

definition no_audit_filters :: audit_log_filters where
  "no_audit_filters =
     \<lparr>af_user_id = None, af_document_id = None, af_action = None, af_skip = None,
      af_limit = None\<rparr>"

definition no_audit_data :: "'e audit_log_data" where
  "no_audit_data = \<lparr>ad_entries = None, ad_total = None, ad_page = None, ad_page_size = None\<rparr>"

definition no_parse :: "string \<Rightarrow> js_exception + user option" where
  "no_parse text = Inl SyntaxError"

text \<open>\<^verbatim>\<open>Number\<close> on a string of decimal digits.\<close>

definition digit_value :: "char \<Rightarrow> int" where
  "digit_value c = int (of_char c) - 48"

definition Number_of_digits :: "string \<Rightarrow> int" where
  "Number_of_digits s = foldl (\<lambda>n c. 10 * n + digit_value c) 0 s"

text \<open>\<^verbatim>\<open>DEFAULT_CONFIG\<close> of CrawlPage.\<close>

definition DEFAULT_CONFIG :: crawl_config where
  "DEFAULT_CONFIG =
     \<lparr>cfg_country = ''NZ'',
      cfg_seed_urls = [''https://www.aainsurance.co.nz/products'',
                       ''https://www.ami.co.nz/insurance'',
                       ''https://www.tower.co.nz/products''],
      cfg_policy_types = [''Life'', ''Home'', ''Motor''],
      cfg_keywords = [''PDS'', ''Policy Wording'', ''Fact Sheet'', ''TMD''],
      cfg_max_pages = 1000, cfg_max_time = 60\<rparr>"

definition status_with :: "string \<Rightarrow> crawl_status_response" where
  "status_with st =
     \<lparr>cs_id = 7, cs_status = st, cs_country = ''NZ'', cs_progress_pct = 40,
      cs_pages_scanned = 12, cs_pdfs_found = 3, cs_pdfs_downloaded = 2, cs_pdfs_filtered = 0,
      cs_errors_count = 0, cs_started_at = None, cs_completed_at = None\<rparr>"


section \<open>HTTP client core: properties\<close>

lemma getItem_removeItem: "getItem k (removeItem k' b) = (if k = k' then None else getItem k b)"
  by (simp add: getItem_def removeItem_def)

lemma pathname_removeItem: "pathname (removeItem k b) = pathname b"
  by (simp add: removeItem_def)

lemma href_removeItem: "href_assignments (removeItem k b) = href_assignments b"
  by (simp add: removeItem_def)

lemma interceptor_401:
  assumes "err_status error = Some 401"
  shows "response_error_interceptor error b =
           (error,
            (if on_login_view b
             then removeItem ''user'' (removeItem ''access_token'' b)
             else assign_href ''/login'' (removeItem ''user'' (removeItem ''access_token'' b))))"
  using assms
  by (simp add: response_error_interceptor_def on_login_view_def Let_def pathname_removeItem)

lemma interceptor_other:
  assumes "err_status error \<noteq> Some 401"
  shows "response_error_interceptor error b = (error, b)"
  using assms by (simp add: response_error_interceptor_def)

lemma client_send_rejected:
  assumes "net (request_interceptor b config) = Inl error"
  shows "client_send net config b = (Inl error, snd (response_error_interceptor error b))"
  using assms by (simp add: client_send_def response_error_interceptor_def Let_def)

lemma client_send_fulfilled:
  assumes "net (request_interceptor b config) = Inr response"
  shows "client_send net config b = (Inr response, b)"
  using assms by (simp add: client_send_def)

text \<open>
  Claim C1. When the transport answers a request with an error whose status is 401, the
  response interceptor removes the token and the cached user from the store, assigns
  \<^verbatim>\<open>'/login'\<close> to \<^verbatim>\<open>window.location.href\<close> exactly when the pathname does not already start
  with \<^verbatim>\<open>/login\<close>, and the call rejects with the same error. The request, and so the
  resource client that built it, is arbitrary: every resource client sends through
  \<open>client_send\<close> (\<open>resource_clients_use_client\<close> below).
\<close>

theorem unauthorized_clears_session:
  assumes "net (request_interceptor b config) = Inl error"
    and "err_status error = Some 401"
  shows "\<exists>b'. client_send net config b = (Inl error, b')
           \<and> getItem ''access_token'' b' = None
           \<and> getItem ''user'' b' = None
           \<and> href_assignments b' =
               (if on_login_view b then href_assignments b
                else href_assignments b @ [''/login''])"
  using assms
  by (simp add: client_send_rejected interceptor_401 getItem_removeItem href_removeItem
      assign_href_def getItem_def removeItem_def)

theorem unauthorized_clears_session_witness:
  "err_status (status_error 401 (request_interceptor signed_in_browser (mk_request GET AuditLog [])))
     = Some 401
   \<and> (\<exists>b'. client_send (failing 401 :: unit transport) (mk_request GET AuditLog [])
               signed_in_browser
              = (Inl (status_error 401
                       (request_interceptor signed_in_browser (mk_request GET AuditLog []))), b')
           \<and> getItem ''access_token'' b' = None
           \<and> getItem ''user'' b' = None
           \<and> href_assignments b' = [''/login''])"
proof -
  let ?config = "mk_request GET AuditLog []"
  have 1: "(failing 401 :: unit transport) (request_interceptor signed_in_browser ?config)
        = Inl (status_error 401 (request_interceptor signed_in_browser ?config))"
    by (simp add: failing_def)
  have 2: "err_status (status_error 401 (request_interceptor signed_in_browser ?config)) = Some 401"
    by (simp add: status_error_def)
  have 3: "\<not> on_login_view signed_in_browser"
    by (simp add: on_login_view_def signed_in_browser_def startsWith_def)
  have 4: "href_assignments signed_in_browser = []"
    by (simp add: signed_in_browser_def)
  show ?thesis
    using unauthorized_clears_session
      [of "failing 401 :: unit transport" signed_in_browser ?config, OF 1 2] 2 3 4
    by simp
qed

text \<open>
  Claim C10. When the transport answers with an error whose status is not 401 (or with no
  response at all), the interceptor changes nothing in the browser: the store and the
  location are as before, and the call rejects with the same error.
\<close>

theorem other_errors_leave_session:
  assumes "net (request_interceptor b config) = Inl error"
    and "err_status error \<noteq> Some 401"
  shows "client_send net config b = (Inl error, b)"
  using assms by (simp add: client_send_rejected interceptor_other)

theorem other_errors_leave_session_witness:
  "err_status (status_error 500 (request_interceptor signed_in_browser (mk_request GET AuditLog [])))
     \<noteq> Some 401
   \<and> client_send (failing 500 :: unit transport) (mk_request GET AuditLog []) signed_in_browser
       = (Inl (status_error 500
                (request_interceptor signed_in_browser (mk_request GET AuditLog []))),
          signed_in_browser)"
proof -
  let ?config = "mk_request GET AuditLog []"
  have 1: "(failing 500 :: unit transport) (request_interceptor signed_in_browser ?config)
        = Inl (status_error 500 (request_interceptor signed_in_browser ?config))"
    by (simp add: failing_def)
  have 2: "err_status (status_error 500 (request_interceptor signed_in_browser ?config)) \<noteq> Some 401"
    by (simp add: status_error_def)
  show ?thesis
    using other_errors_leave_session
      [of "failing 500 :: unit transport" signed_in_browser ?config, OF 1 2] 2
    by simp
qed


section \<open>Resource clients: properties\<close>

lemma ceil_div_ceiling: "ceil_div a b = \<lceil>real_of_int a / real_of_int b\<rceil>"
proof -
  have "\<lceil>real_of_int a / real_of_int b\<rceil> = - \<lfloor>real_of_int (- a) / real_of_int b\<rfloor>"
    by (simp add: ceiling_def)
  also have "\<dots> = - ((- a) div b)"
    by (simp only: floor_divide_of_int_eq)
  finally show ?thesis by (simp add: ceil_div_def)
qed

lemma or_number_nonzero: "d \<noteq> 0 \<Longrightarrow> or_number a d \<noteq> 0"
  by (auto simp: or_number_def truthy_number_def split: option.splits)

lemma page_size_nonzero: "r_page_size (documents_envelope filters data) \<noteq> 0"
  by (cases data)
     (simp_all add: documents_envelope_def normalize_documents_def Let_def or_number_nonzero)

lemma ceil_div_pos:
  assumes "0 \<le> a" and "0 < b"
  shows "0 \<le> ceil_div a b"
proof -
  have "(- a) div b \<le> 0" using assms by (simp add: div_nonpos_pos_le0)
  thus ?thesis by (simp add: ceil_div_def)
qed

lemma getDocuments_fulfilled:
  assumes "net (request_interceptor b (mk_request GET Documents (document_params filters))) = Inr body"
  shows "getDocuments net filters b = (Inr (documents_envelope filters body), b)"
  using assms by (simp add: getDocuments_def client_send_fulfilled)

lemma getDocuments_rejected:
  assumes "net (request_interceptor b (mk_request GET Documents (document_params filters))) = Inl error"
  shows "fst (getDocuments net filters b) = Inr EMPTY_RESPONSE"
  using assms by (simp add: getDocuments_def client_send_rejected)

lemma getAuditLog_rejected:
  assumes "net (request_interceptor b (mk_request GET AuditLog (audit_params filters))) = Inl error"
  shows "fst (getAuditLog net filters b) = Inr EMPTY_AUDIT_RESPONSE"
  using assms by (simp add: getAuditLog_def client_send_rejected)

lemma documents_envelope_pages:
  "r_pages (documents_envelope filters data) =
     (let c = ceil_div (r_total (documents_envelope filters data))
                       (r_page_size (documents_envelope filters data))
      in if c = 0 then 1 else c)"
  by (cases data) (simp_all add: documents_envelope_def normalize_documents_def Let_def)

lemma client_call_rejected:
  assumes "net (request_interceptor b config) = Inl error"
  shows "fst (client_send net config b) = Inl error"
proof (cases "err_status error = Some 401")
  case True
  with assms show ?thesis by (simp add: client_send_rejected interceptor_401)
next
  case False
  with assms show ?thesis by (simp add: client_send_rejected interceptor_other)
qed

lemma resource_clients_use_client:
  "snd (authApi_login lnet credentials b)
     = snd (client_send (lnet credentials) (mk_request POST AuthLogin []) b)"
  "snd (getDocuments dnet filters b)
     = snd (client_send dnet (mk_request GET Documents (document_params filters)) b)"
  "snd (getCrawlStatus cnet crawlId b)
     = snd (client_send cnet (mk_request GET (CrawlStatus crawlId) []) b)"
  "snd (getPipelineStats pnet b) = snd (client_send pnet (mk_request GET StatsPipeline []) b)"
  "snd (getAuditLog anet afilters b)
     = snd (client_send anet (mk_request GET AuditLog (audit_params afilters)) b)"
  by (simp_all add: authApi_login_def getDocuments_def getCrawlStatus_def getPipelineStats_def
      getAuditLog_def split: prod.splits sum.splits body.splits)

lemmas client_eval =
  getDocuments_def getAuditLog_def getDocument_def approveDocument_def deleteDocument_def
  startCrawl_def documents_envelope_def audit_envelope_def normalize_documents_def
  normalize_audit_def client_send_def
  request_interceptor_def response_error_interceptor_def mk_request_def document_params_def
  audit_params_def opt_param_def no_filters_def no_audit_filters_def no_audit_data_def
  empty_data_def EMPTY_RESPONSE_def EMPTY_AUDIT_RESPONSE_def or_number_def truthy_number_def
  truthy_string_def ceil_div_def spread_def getItem_def removeItem_def assign_href_def
  startsWith_def signed_in_browser_def failing_def answering_def status_error_def Let_def

text \<open>
  Claim C7, as amended. For a fulfilled response the page size is never \<open>0\<close> and \<open>pages\<close>
  is \<open>ceil(total / page_size)\<close>, replaced by \<open>1\<close> when that is \<open>0\<close>; when the total is not
  negative and the page size is positive this is the ceiling with a floor of \<open>1\<close>. With no
  filters and a body holding one document, \<open>total = 1\<close> and no \<open>limit\<close>, the envelope has
  \<open>pages = 1\<close>, \<open>page_size = 20\<close> and one item.
\<close>

theorem pages_of_successful_response:
  "(net (request_interceptor b (mk_request GET Documents (document_params filters))) = Inr body
      \<and> fst (getDocuments net filters b) = Inr resp \<longrightarrow>
      r_page_size resp \<noteq> 0
      \<and> r_pages resp =
          (if \<lceil>real_of_int (r_total resp) / real_of_int (r_page_size resp)\<rceil> = 0 then 1
           else \<lceil>real_of_int (r_total resp) / real_of_int (r_page_size resp)\<rceil>)
      \<and> (0 \<le> r_total resp \<and> 0 < r_page_size resp \<longrightarrow>
           r_pages resp = max 1 \<lceil>real_of_int (r_total resp) / real_of_int (r_page_size resp)\<rceil>
           \<and> 1 \<le> r_pages resp))
   \<and> (net (request_interceptor b (mk_request GET Documents (document_params no_filters)))
        = Inr (Json (Some (empty_data\<lparr>d_documents := Some [doc], d_total := Some 1\<rparr>))) \<longrightarrow>
      (\<exists>r. fst (getDocuments net no_filters b) = Inr r
         \<and> r_pages r = 1 \<and> r_page_size r = 20 \<and> length (r_items r) = 1))"
proof (intro conjI impI)
  assume a: "net (request_interceptor b (mk_request GET Documents (document_params filters)))
      = Inr body \<and> fst (getDocuments net filters b) = Inr resp"
  then have "getDocuments net filters b = (Inr (documents_envelope filters body), b)"
    by (intro getDocuments_fulfilled) simp
  with a have resp: "resp = documents_envelope filters body"
    by simp
  have pages: "r_pages resp =
      (if ceil_div (r_total resp) (r_page_size resp) = 0 then 1
       else ceil_div (r_total resp) (r_page_size resp))"
    unfolding resp by (simp add: documents_envelope_pages Let_def)
  show "r_page_size resp \<noteq> 0"
    by (simp add: resp page_size_nonzero)
  show "r_pages resp =
          (if \<lceil>real_of_int (r_total resp) / real_of_int (r_page_size resp)\<rceil> = 0 then 1
           else \<lceil>real_of_int (r_total resp) / real_of_int (r_page_size resp)\<rceil>)"
    using pages by (simp add: ceil_div_ceiling)
  assume b: "0 \<le> r_total resp \<and> 0 < r_page_size resp"
  then have "0 \<le> ceil_div (r_total resp) (r_page_size resp)"
    by (simp add: ceil_div_pos)
  with pages
  have "r_pages resp = max 1 (ceil_div (r_total resp) (r_page_size resp)) \<and> 1 \<le> r_pages resp"
    by (simp add: max_def)
  then show "r_pages resp = max 1 \<lceil>real_of_int (r_total resp) / real_of_int (r_page_size resp)\<rceil>"
    and "1 \<le> r_pages resp"
    by (simp_all add: ceil_div_ceiling)
next
  assume "net (request_interceptor b (mk_request GET Documents (document_params no_filters)))
        = Inr (Json (Some (empty_data\<lparr>d_documents := Some [doc], d_total := Some 1\<rparr>)))"
  then have "getDocuments net no_filters b =
      (Inr (documents_envelope no_filters
              (Json (Some (empty_data\<lparr>d_documents := Some [doc], d_total := Some 1\<rparr>)))), b)"
    by (rule getDocuments_fulfilled)
  then show "\<exists>r. fst (getDocuments net no_filters b) = Inr r
         \<and> r_pages r = 1 \<and> r_page_size r = 20 \<and> length (r_items r) = 1"
    by (simp add: documents_envelope_def normalize_documents_def no_filters_def empty_data_def
        or_number_def
        truthy_number_def ceil_div_def Let_def)
qed

theorem pages_of_successful_response_witness:
  "fst (getDocuments
          (answering (Json (Some (empty_data\<lparr>d_documents := Some [()], d_total := Some 1\<rparr>))))
          no_filters signed_in_browser)
     = Inr (EMPTY_RESPONSE\<lparr>r_documents := [()], r_items := [()], r_total := 1\<rparr>)
   \<and> (0::int) \<le> 1 \<and> (0::int) < 20
   \<and> r_pages (EMPTY_RESPONSE\<lparr>r_documents := [()], r_items := [()], r_total := 1\<rparr>)
       = max 1 \<lceil>real_of_int 1 / real_of_int 20\<rceil>"
proof -
  let ?net = "answering (Json (Some (empty_data\<lparr>d_documents := Some [()], d_total := Some 1\<rparr>)))
    :: unit document_list_data option body transport"
  let ?resp = "EMPTY_RESPONSE\<lparr>r_documents := [()], r_items := [()], r_total := 1\<rparr>
    :: unit document_list_response"
  have 1: "?net (request_interceptor signed_in_browser
                   (mk_request GET Documents (document_params no_filters)))
      = Inr (Json (Some (empty_data\<lparr>d_documents := Some [()], d_total := Some 1\<rparr>)))"
    by (simp add: answering_def)
  have 2: "fst (getDocuments ?net no_filters signed_in_browser) = Inr ?resp"
    by (simp add: client_eval)
  have 3: "0 \<le> r_total ?resp \<and> 0 < r_page_size ?resp"
    by (simp add: EMPTY_RESPONSE_def)
  from pages_of_successful_response
    [of ?net signed_in_browser no_filters
        "Json (Some (empty_data\<lparr>d_documents := Some [()], d_total := Some 1\<rparr>))" ?resp "()"]
    1 2 3
  have "r_pages ?resp = max 1 \<lceil>real_of_int (r_total ?resp) / real_of_int (r_page_size ?resp)\<rceil>"
    by blast
  then show ?thesis
    using 2 by (simp add: EMPTY_RESPONSE_def)
qed

theorem negative_total_pages_counterexample:
  "fst (getDocuments
          (answering (Json (Some (empty_data\<lparr>d_documents := Some [()], d_total := Some (- 25),
                                        d_limit := Some 20\<rparr>))))
          no_filters signed_in_browser)
     = Inr \<lparr>r_documents = [()], r_total = - 25, r_limit = 20, r_offset = 0, r_has_more = False,
            r_items = [()], r_pages = - 1, r_page = 1, r_page_size = 20, r_index_chars = []\<rparr>"
  by (simp add: client_eval)

text \<open>
  Claim C8, as amended. When the client call rejects, \<open>getDocuments\<close> resolves with its
  fixed empty envelope and \<open>getAuditLog\<close> with \<open>{entries: [], total: 0, page: 1,
  page_size: 50}\<close>, whatever the filters, and the two never reject; \<open>getDocument\<close>,
  \<open>approveDocument\<close>, \<open>deleteDocument\<close> and \<open>startCrawl\<close> reject with the error. A body that
  is not valid JSON is not a rejection: it arrives as a string, and then \<open>getDocuments\<close>
  resolves with no documents, total \<open>0\<close> and one page, but with \<open>page\<close> and \<open>page_size\<close>
  taken from the filters, and \<open>getAuditLog\<close> with its four defaults; both envelopes carry
  the characters of the string as extra keys.
\<close>

theorem list_clients_swallow_errors:
  "(netD (request_interceptor b (mk_request GET Documents (document_params filters)))
        = Inl errorD \<longrightarrow>
      fst (getDocuments netD filters b)
        = Inr \<lparr>r_documents = [], r_total = 0, r_limit = 20, r_offset = 0, r_has_more = False,
               r_items = [], r_pages = 1, r_page = 1, r_page_size = 20, r_index_chars = []\<rparr>)
   \<and> (netA (request_interceptor b (mk_request GET AuditLog (audit_params afilters)))
        = Inl errorA \<longrightarrow>
      fst (getAuditLog netA afilters b)
        = Inr \<lparr>entries = [], total = 0, page = 1, page_size = 50, index_chars = []\<rparr>)
   \<and> (\<exists>r. fst (getDocuments netD filters b) = Inr r)
   \<and> (\<exists>r. fst (getAuditLog netA afilters b) = Inr r)
   \<and> (textD (request_interceptor b (mk_request GET Documents (document_params filters)))
        = Inr (Text s) \<longrightarrow>
      fst (getDocuments textD filters b)
        = Inr \<lparr>r_documents = [], r_total = 0, r_limit = 20, r_offset = 0, r_has_more = False,
               r_items = [], r_pages = 1, r_page = or_number (f_page filters) 1,
               r_page_size = or_number (f_limit filters) 20, r_index_chars = s\<rparr>)
   \<and> (textA (request_interceptor b (mk_request GET AuditLog (audit_params afilters)))
        = Inr (Text t) \<longrightarrow>
      fst (getAuditLog textA afilters b)
        = Inr \<lparr>entries = [], total = 0, page = 1, page_size = 50, index_chars = t\<rparr>)
   \<and> (net1 (request_interceptor b (mk_request GET (DocumentById documentId) []))
        = Inl error1 \<longrightarrow>
      fst (getDocument net1 documentId b) = Inl error1)
   \<and> (net2 (request_interceptor b (mk_request PUT (DocumentApprove documentId) []))
        = Inl error2 \<longrightarrow>
      fst (approveDocument net2 documentId b) = Inl error2)
   \<and> (net3 (request_interceptor b (mk_request DELETE (DocumentById documentId) []))
        = Inl error3 \<longrightarrow>
      fst (deleteDocument net3 documentId b) = Inl error3)
   \<and> (net4 config (request_interceptor b (mk_request POST CrawlStart []))
        = Inl error4 \<longrightarrow>
      fst (startCrawl net4 config b) = Inl error4)"
proof (intro conjI impI)
  show "fst (getDocuments netD filters b)
        = Inr \<lparr>r_documents = [], r_total = 0, r_limit = 20, r_offset = 0, r_has_more = False,
               r_items = [], r_pages = 1, r_page = 1, r_page_size = 20, r_index_chars = []\<rparr>"
    if "netD (request_interceptor b (mk_request GET Documents (document_params filters)))
        = Inl errorD"
  proof -
    from that have "fst (getDocuments netD filters b) = Inr EMPTY_RESPONSE"
      by (rule getDocuments_rejected)
    then show ?thesis by (simp add: EMPTY_RESPONSE_def)
  qed
  show "fst (getAuditLog netA afilters b)
        = Inr \<lparr>entries = [], total = 0, page = 1, page_size = 50, index_chars = []\<rparr>"
    if "netA (request_interceptor b (mk_request GET AuditLog (audit_params afilters)))
        = Inl errorA"
  proof -
    from that have "fst (getAuditLog netA afilters b) = Inr EMPTY_AUDIT_RESPONSE"
      by (rule getAuditLog_rejected)
    then show ?thesis by (simp add: EMPTY_AUDIT_RESPONSE_def)
  qed
  show "\<exists>r. fst (getDocuments netD filters b) = Inr r"
    by (simp add: getDocuments_def split: prod.split sum.split)
  show "\<exists>r. fst (getAuditLog netA afilters b) = Inr r"
    by (simp add: getAuditLog_def split: prod.split sum.split)
  show "fst (getDocuments textD filters b)
        = Inr \<lparr>r_documents = [], r_total = 0, r_limit = 20, r_offset = 0, r_has_more = False,
               r_items = [], r_pages = 1, r_page = or_number (f_page filters) 1,
               r_page_size = or_number (f_limit filters) 20, r_index_chars = s\<rparr>"
    if "textD (request_interceptor b (mk_request GET Documents (document_params filters)))
        = Inr (Text s)"
  proof -
    from that have "getDocuments textD filters b = (Inr (documents_envelope filters (Text s)), b)"
      by (rule getDocuments_fulfilled)
    then show ?thesis
      by (simp add: documents_envelope_def normalize_documents_def empty_data_def
          EMPTY_RESPONSE_def or_number_def truthy_number_def ceil_div_def Let_def)
  qed
  show "fst (getAuditLog textA afilters b)
        = Inr \<lparr>entries = [], total = 0, page = 1, page_size = 50, index_chars = t\<rparr>"
    if "textA (request_interceptor b (mk_request GET AuditLog (audit_params afilters)))
        = Inr (Text t)"
    using that
    by (simp add: getAuditLog_def client_send_fulfilled audit_envelope_def
        EMPTY_AUDIT_RESPONSE_def)
  show "fst (getDocument net1 documentId b) = Inl error1"
    if "net1 (request_interceptor b (mk_request GET (DocumentById documentId) [])) = Inl error1"
    unfolding getDocument_def using that by (rule client_call_rejected)
  show "fst (approveDocument net2 documentId b) = Inl error2"
    if "net2 (request_interceptor b (mk_request PUT (DocumentApprove documentId) [])) = Inl error2"
    unfolding approveDocument_def using that by (rule client_call_rejected)
  show "fst (deleteDocument net3 documentId b) = Inl error3"
    if "net3 (request_interceptor b (mk_request DELETE (DocumentById documentId) [])) = Inl error3"
  proof -
    from that
    have "fst (client_send net3 (mk_request DELETE (DocumentById documentId) []) b) = Inl error3"
      by (rule client_call_rejected)
    then show ?thesis
      by (auto simp add: deleteDocument_def split: prod.splits sum.splits)
  qed
  show "fst (startCrawl net4 config b) = Inl error4"
    if "net4 config (request_interceptor b (mk_request POST CrawlStart [])) = Inl error4"
    unfolding startCrawl_def using that by (rule client_call_rejected)
qed

theorem list_clients_swallow_errors_witness:
  "fst (getDocuments (failing 500 :: unit document_list_data option body transport)
          (no_filters\<lparr>f_limit := Some 25\<rparr>) signed_in_browser)
     = Inr \<lparr>r_documents = [], r_total = 0, r_limit = 20, r_offset = 0, r_has_more = False,
            r_items = [], r_pages = 1, r_page = 1, r_page_size = 20, r_index_chars = []\<rparr>
   \<and> fst (getAuditLog (failing 500 :: unit audit_log_data body transport)
            (no_audit_filters\<lparr>af_limit := Some 25\<rparr>) signed_in_browser)
       = Inr \<lparr>entries = [], total = 0, page = 1, page_size = 50, index_chars = []\<rparr>
   \<and> fst (getDocuments (answering (Text ''<html>'') :: unit document_list_data option body transport)
            (no_filters\<lparr>f_limit := Some 25\<rparr>) signed_in_browser)
       = Inr \<lparr>r_documents = [], r_total = 0, r_limit = 20, r_offset = 0, r_has_more = False,
              r_items = [], r_pages = 1,
              r_page = or_number (f_page (no_filters\<lparr>f_limit := Some 25\<rparr>)) 1,
              r_page_size = or_number (f_limit (no_filters\<lparr>f_limit := Some 25\<rparr>)) 20,
              r_index_chars = ''<html>''\<rparr>
   \<and> fst (getAuditLog (answering (Text ''<html>'') :: unit audit_log_data body transport)
            (no_audit_filters\<lparr>af_limit := Some 25\<rparr>) signed_in_browser)
       = Inr \<lparr>entries = [], total = 0, page = 1, page_size = 50, index_chars = ''<html>''\<rparr>
   \<and> fst (getDocument (failing 500 :: unit transport) 3 signed_in_browser)
       = Inl (status_error 500
               (request_interceptor signed_in_browser (mk_request GET (DocumentById 3) [])))
   \<and> fst (approveDocument (failing 500 :: unit transport) 3 signed_in_browser)
       = Inl (status_error 500
               (request_interceptor signed_in_browser (mk_request PUT (DocumentApprove 3) [])))
   \<and> fst (deleteDocument (failing 500 :: unit transport) 3 signed_in_browser)
       = Inl (status_error 500
               (request_interceptor signed_in_browser (mk_request DELETE (DocumentById 3) [])))
   \<and> fst (startCrawl (failing_start 500) DEFAULT_CONFIG signed_in_browser)
       = Inl (status_error 500
               (request_interceptor signed_in_browser (mk_request POST CrawlStart [])))"
proof -
  let ?b = signed_in_browser
  let ?e = "\<lambda>config. status_error 500 (request_interceptor ?b config)"
  have f: "failing 500 (request_interceptor ?b config) = Inl (?e config)"
    "failing_start 500 cfg (request_interceptor ?b config) = Inl (?e config)" for config cfg
    by (simp_all add: failing_def failing_start_def)
  have t: "answering (Text ''<html>'') (request_interceptor ?b config) = Inr (Text ''<html>'')"
    for config
    by (simp add: answering_def)
  from list_clients_swallow_errors
    [where netD = "failing 500 :: unit document_list_data option body transport"
       and b = ?b and filters = "no_filters\<lparr>f_limit := Some 25\<rparr>"
       and errorD = "?e (mk_request GET Documents (document_params (no_filters\<lparr>f_limit := Some 25\<rparr>)))"
       and netA = "failing 500 :: unit audit_log_data body transport"
       and afilters = "no_audit_filters\<lparr>af_limit := Some 25\<rparr>"
       and errorA = "?e (mk_request GET AuditLog (audit_params (no_audit_filters\<lparr>af_limit := Some 25\<rparr>)))"
       and textD = "answering (Text ''<html>'') :: unit document_list_data option body transport"
       and s = "''<html>''"
       and textA = "answering (Text ''<html>'') :: unit audit_log_data body transport"
       and t = "''<html>''"
       and ?net1.0 = "failing 500 :: unit transport" and documentId = 3
       and ?error1.0 = "?e (mk_request GET (DocumentById 3) [])"
       and ?net2.0 = "failing 500 :: unit transport"
       and ?error2.0 = "?e (mk_request PUT (DocumentApprove 3) [])"
       and ?net3.0 = "failing 500 :: unit transport"
       and ?error3.0 = "?e (mk_request DELETE (DocumentById 3) [])"
       and ?net4.0 = "failing_start 500" and config = DEFAULT_CONFIG
       and ?error4.0 = "?e (mk_request POST CrawlStart [])"]
  show ?thesis
    by (simp only: f t simp_thms)
qed

theorem malformed_body_counterexample:
  "fst (getDocuments (answering (Text ''<html>'') :: unit document_list_data option body transport)
          (no_filters\<lparr>f_limit := Some 25\<rparr>) signed_in_browser)
     = Inr \<lparr>r_documents = [], r_total = 0, r_limit = 20, r_offset = 0, r_has_more = False,
            r_items = [], r_pages = 1, r_page = 1, r_page_size = 25,
            r_index_chars = ''<html>''\<rparr>
   \<and> fst (getAuditLog (answering (Text ''<html>'') :: unit audit_log_data body transport)
            (no_audit_filters\<lparr>af_limit := Some 25\<rparr>) signed_in_browser)
       = Inr \<lparr>entries = [], total = 0, page = 1, page_size = 50, index_chars = ''<html>''\<rparr>"
  by (simp add: client_eval)

text \<open>
  Claim C9, as amended. Nothing is clamped. The total of a documents envelope is the
  server's total, or \<open>0\<close> when that is missing, so it is non-negative exactly when the
  server's total is missing or non-negative; its page is \<open>filters.page\<close>, or \<open>1\<close> when that
  is missing or \<open>0\<close>, so it is at least \<open>1\<close> exactly when \<open>filters.page\<close> is missing, \<open>0\<close> or
  at least \<open>1\<close>. An audit envelope takes total and page from the body when they are there
  and \<open>0\<close> and \<open>1\<close> otherwise. A body that is a string counts as one without fields. The
  envelopes returned after a rejection have total \<open>0\<close> and page \<open>1\<close>.
\<close>

theorem envelope_bounds:
  "(0 \<le> r_total (normalize_documents filters body))
     = (case body of None \<Rightarrow> True
        | Some d \<Rightarrow> (case d_total d of None \<Rightarrow> True | Some t \<Rightarrow> 0 \<le> t))
   \<and> (1 \<le> r_page (normalize_documents filters body))
     = (case f_page filters of None \<Rightarrow> True | Some p \<Rightarrow> p = 0 \<or> 1 \<le> p)
   \<and> (0 \<le> total (normalize_audit data))
     = (case ad_total data of None \<Rightarrow> True | Some t \<Rightarrow> 0 \<le> t)
   \<and> (1 \<le> page (normalize_audit data))
     = (case ad_page data of None \<Rightarrow> True | Some p \<Rightarrow> 1 \<le> p)
   \<and> getDocuments net filters b
     = (case net (request_interceptor b (mk_request GET Documents (document_params filters))) of
          Inr body' \<Rightarrow> (Inr (documents_envelope filters body'), b)
        | Inl error \<Rightarrow> (Inr EMPTY_RESPONSE, snd (response_error_interceptor error b)))
   \<and> getAuditLog anet afilters b
     = (case anet (request_interceptor b (mk_request GET AuditLog (audit_params afilters))) of
          Inr data' \<Rightarrow> (Inr (audit_envelope data'), b)
        | Inl error \<Rightarrow> (Inr EMPTY_AUDIT_RESPONSE, snd (response_error_interceptor error b)))
   \<and> documents_envelope filters (Json body) = normalize_documents filters body
   \<and> r_total (documents_envelope filters (Text s)) = 0
   \<and> r_page (documents_envelope filters (Text s)) = r_page (normalize_documents filters None)
   \<and> audit_envelope (Json data) = normalize_audit data
   \<and> total (audit_envelope (Text s)) = 0 \<and> page (audit_envelope (Text s)) = 1
   \<and> r_total EMPTY_RESPONSE = 0 \<and> r_page EMPTY_RESPONSE = 1
   \<and> total EMPTY_AUDIT_RESPONSE = 0 \<and> page EMPTY_AUDIT_RESPONSE = 1"
proof (intro conjI)
  show "(0 \<le> r_total (normalize_documents filters body))
     = (case body of None \<Rightarrow> True
        | Some d \<Rightarrow> (case d_total d of None \<Rightarrow> True | Some t \<Rightarrow> 0 \<le> t))"
    by (auto simp add: normalize_documents_def Let_def or_number_def truthy_number_def
        empty_data_def split: option.splits)
  show "(1 \<le> r_page (normalize_documents filters body))
     = (case f_page filters of None \<Rightarrow> True | Some p \<Rightarrow> p = 0 \<or> 1 \<le> p)"
    by (auto simp add: normalize_documents_def Let_def or_number_def truthy_number_def
        split: option.splits)
  show "(0 \<le> total (normalize_audit data))
     = (case ad_total data of None \<Rightarrow> True | Some t \<Rightarrow> 0 \<le> t)"
    by (simp add: normalize_audit_def spread_def EMPTY_AUDIT_RESPONSE_def split: option.splits)
  show "(1 \<le> page (normalize_audit data))
     = (case ad_page data of None \<Rightarrow> True | Some p \<Rightarrow> 1 \<le> p)"
    by (simp add: normalize_audit_def spread_def EMPTY_AUDIT_RESPONSE_def split: option.splits)
  show "getDocuments net filters b
     = (case net (request_interceptor b (mk_request GET Documents (document_params filters))) of
          Inr body' \<Rightarrow> (Inr (documents_envelope filters body'), b)
        | Inl error \<Rightarrow> (Inr EMPTY_RESPONSE, snd (response_error_interceptor error b)))"
    by (simp add: getDocuments_def client_send_def split: sum.splits prod.splits)
  show "getAuditLog anet afilters b
     = (case anet (request_interceptor b (mk_request GET AuditLog (audit_params afilters))) of
          Inr data' \<Rightarrow> (Inr (audit_envelope data'), b)
        | Inl error \<Rightarrow> (Inr EMPTY_AUDIT_RESPONSE, snd (response_error_interceptor error b)))"
    by (simp add: getAuditLog_def client_send_def split: sum.splits prod.splits)
qed (simp_all add: EMPTY_RESPONSE_def EMPTY_AUDIT_RESPONSE_def documents_envelope_def
    audit_envelope_def normalize_documents_def empty_data_def or_number_def truthy_number_def
    Let_def)

theorem unclamped_envelope_counterexample:
  "fst (getDocuments
          (answering (Json (Some (empty_data\<lparr>d_documents := Some [()], d_total := Some (- 3)\<rparr>))))
          (no_filters\<lparr>f_page := Some (- 1)\<rparr>) signed_in_browser)
     = Inr \<lparr>r_documents = [()], r_total = - 3, r_limit = 20, r_offset = 0, r_has_more = False,
            r_items = [()], r_pages = 1, r_page = - 1, r_page_size = 20, r_index_chars = []\<rparr>
   \<and> fst (getAuditLog
            (answering (Json (no_audit_data\<lparr>ad_entries := Some [()], ad_total := Some (- 1),
                                             ad_page := Some 0\<rparr>)))
            no_audit_filters signed_in_browser)
       = Inr \<lparr>entries = [()], total = - 1, page = 0, page_size = 50, index_chars = []\<rparr>"
  by (simp add: client_eval)


section \<open>Session controller: properties\<close>

lemma authApi_login_fulfilled:
  assumes "net credentials (request_interceptor b (mk_request POST AuthLogin [])) = Inr response"
  shows "authApi_login net credentials b = (Inr response, b)"
  using assms by (simp add: authApi_login_def client_send_fulfilled)

lemma authApi_login_rejected:
  assumes "net credentials (request_interceptor b (mk_request POST AuthLogin [])) = Inl error"
  shows "authApi_login net credentials b = (Inl error, snd (response_error_interceptor error b))"
  using assms by (simp add: authApi_login_def client_send_rejected)

lemma login_fulfilled:
  assumes "net (credentials_of arg password country)
             (request_interceptor b (mk_request POST AuthLogin [])) = Inr response"
  shows "login json_stringify net arg password country (b, a) =
           (Inr (),
            (setItem ''user'' (json_stringify (login_user response))
               (setItem ''access_token'' (access_token response) b),
             setToken (Some (access_token response)) (setUser (Some (login_user response)) a)))"
  using assms by (simp add: login_def authApi_login_fulfilled Let_def)

lemma login_rejected:
  assumes "net (credentials_of arg password country)
             (request_interceptor b (mk_request POST AuthLogin [])) = Inl error"
  shows "login json_stringify net arg password country (b, a) =
           (Inl error, (snd (response_error_interceptor error b), a))"
  using assms by (simp add: login_def authApi_login_rejected Let_def)

lemma isAuthenticated_iff:
  "isAuthenticated a \<longleftrightarrow> (\<exists>u. st_user a = Some u) \<and> (\<exists>t. st_token a = Some t \<and> t \<noteq> [])"
  by (cases "st_token a") (auto simp: isAuthenticated_def truthy_string_def)

lemma boot_empty:
  assumes "localStorage b = Map.empty"
  shows "boot json_parse b a = Inr (setLoading False a)"
  using assms by (simp add: boot_def getItem_def truthy_string_def Let_def)

lemmas session_eval =
  login_def authApi_login_def client_send_def request_interceptor_def
  response_error_interceptor_def mk_request_def getItem_def setItem_def removeItem_def
  assign_href_def startsWith_def truthy_string_def setUser_def setToken_def setLoading_def
  isAuthenticated_def initial_auth_def empty_browser_def accepting_def rejecting_def
  status_error_def example_user_def show_user_def Let_def

text \<open>
  Claim C5, as amended. When the login request is fulfilled, \<open>login\<close> resolves, the store
  holds the token and the serialised user, the component state holds both, and
  \<open>isAuthenticated\<close> is true exactly when the token is not the empty string. When the
  request is rejected, \<open>login\<close> rejects with the same error and the component state is as
  before; the store is as before unless the status is 401, in which case the response
  interceptor has removed the token and the user from it.
\<close>

theorem login_outcome:
  "(net (credentials_of arg password country)
        (request_interceptor b (mk_request POST AuthLogin [])) = Inr response \<longrightarrow>
      (\<exists>b' a'. login json_stringify net arg password country (b, a) = (Inr (), (b', a'))
         \<and> getItem ''access_token'' b' = Some (access_token response)
         \<and> getItem ''user'' b' = Some (json_stringify (login_user response))
         \<and> st_user a' = Some (login_user response)
         \<and> st_token a' = Some (access_token response)
         \<and> isAuthenticated a' = (access_token response \<noteq> [])))
   \<and> (net (credentials_of arg password country)
        (request_interceptor b (mk_request POST AuthLogin [])) = Inl error \<longrightarrow>
      (\<exists>b'. login json_stringify net arg password country (b, a) = (Inl error, (b', a))
         \<and> (if err_status error = Some 401
             then getItem ''access_token'' b' = None \<and> getItem ''user'' b' = None
             else b' = b)))"
proof (intro conjI impI)
  assume ok: "net (credentials_of arg password country)
        (request_interceptor b (mk_request POST AuthLogin [])) = Inr response"
  show "\<exists>b' a'. login json_stringify net arg password country (b, a) = (Inr (), (b', a'))
         \<and> getItem ''access_token'' b' = Some (access_token response)
         \<and> getItem ''user'' b' = Some (json_stringify (login_user response))
         \<and> st_user a' = Some (login_user response)
         \<and> st_token a' = Some (access_token response)
         \<and> isAuthenticated a' = (access_token response \<noteq> [])"
    using ok
    by (simp add: login_fulfilled getItem_def setItem_def setUser_def setToken_def
        isAuthenticated_def truthy_string_def)
next
  assume bad: "net (credentials_of arg password country)
        (request_interceptor b (mk_request POST AuthLogin [])) = Inl error"
  show "\<exists>b'. login json_stringify net arg password country (b, a) = (Inl error, (b', a))
         \<and> (if err_status error = Some 401
             then getItem ''access_token'' b' = None \<and> getItem ''user'' b' = None
             else b' = b)"
  proof (cases "err_status error = Some 401")
    case True
    with bad show ?thesis
      by (simp add: login_rejected interceptor_401 getItem_removeItem
          assign_href_def getItem_def removeItem_def)
  next
    case False
    with bad show ?thesis
      by (simp add: login_rejected interceptor_other)
  qed
qed

theorem login_outcome_witness:
  "(\<exists>b' a'. login show_user (accepting ''tok'') (Username ''admin'') (Some ''admin123'') None
               (empty_browser, initial_auth) = (Inr (), (b', a'))
        \<and> getItem ''access_token'' b' = Some ''tok''
        \<and> getItem ''user'' b' = Some ''admin''
        \<and> st_user a' = Some example_user
        \<and> st_token a' = Some ''tok''
        \<and> isAuthenticated a')
   \<and> (\<exists>b'. login show_user (rejecting 500) (Username ''admin'') (Some ''admin123'') None
               (signed_in_browser, initial_auth)
            = (Inl (status_error 500
                     (request_interceptor signed_in_browser (mk_request POST AuthLogin []))),
               (b', initial_auth))
        \<and> b' = signed_in_browser)
   \<and> (\<exists>b'. login show_user (rejecting 401) (Username ''admin'') (Some ''admin123'') None
               (signed_in_browser, initial_auth)
            = (Inl (status_error 401
                     (request_interceptor signed_in_browser (mk_request POST AuthLogin []))),
               (b', initial_auth))
        \<and> getItem ''access_token'' b' = None \<and> getItem ''user'' b' = None)"
proof -
  let ?arg = "Username ''admin''"
  let ?config = "mk_request POST AuthLogin []"
  let ?e = "\<lambda>code. status_error code (request_interceptor signed_in_browser ?config)"
  have ok: "accepting ''tok'' (credentials_of ?arg (Some ''admin123'') None)
              (request_interceptor empty_browser ?config)
            = Inr \<lparr>access_token = ''tok'', token_type = ''bearer'', login_user = example_user\<rparr>"
    by (simp add: accepting_def)
  have bad: "rejecting code (credentials_of ?arg (Some ''admin123'') None)
               (request_interceptor signed_in_browser ?config) = Inl (?e code)" for code
    by (simp add: rejecting_def)
  have st: "err_status (?e 500) \<noteq> Some 401" "err_status (?e 401) = Some 401"
    by (simp_all add: status_error_def)
  from login_outcome
    [where net = "accepting ''tok''" and arg = ?arg and password = "Some ''admin123''"
       and country = None and b = empty_browser and a = initial_auth
       and json_stringify = show_user
       and response = "\<lparr>access_token = ''tok'', token_type = ''bearer'',
                           login_user = example_user\<rparr>"] ok
  have 1: "\<exists>b' a'. login show_user (accepting ''tok'') ?arg (Some ''admin123'') None
               (empty_browser, initial_auth) = (Inr (), (b', a'))
        \<and> getItem ''access_token'' b' = Some ''tok''
        \<and> getItem ''user'' b' = Some ''admin''
        \<and> st_user a' = Some example_user
        \<and> st_token a' = Some ''tok''
        \<and> isAuthenticated a'"
    by (simp add: show_user_def example_user_def)
  from login_outcome
    [where net = "rejecting 500" and arg = ?arg and password = "Some ''admin123''"
       and country = None and b = signed_in_browser and a = initial_auth
       and json_stringify = show_user and error = "?e 500"] bad [of 500] st(1)
  have 2: "\<exists>b'. login show_user (rejecting 500) ?arg (Some ''admin123'') None
               (signed_in_browser, initial_auth) = (Inl (?e 500), (b', initial_auth))
        \<and> b' = signed_in_browser"
    by simp
  from login_outcome
    [where net = "rejecting 401" and arg = ?arg and password = "Some ''admin123''"
       and country = None and b = signed_in_browser and a = initial_auth
       and json_stringify = show_user and error = "?e 401"] bad [of 401] st(2)
  have 3: "\<exists>b'. login show_user (rejecting 401) ?arg (Some ''admin123'') None
               (signed_in_browser, initial_auth) = (Inl (?e 401), (b', initial_auth))
        \<and> getItem ''access_token'' b' = None \<and> getItem ''user'' b' = None"
    by simp
  from 1 2 3 show ?thesis by blast
qed

theorem failed_login_clears_store_counterexample:
  "getItem ''access_token''
     (fst (snd (login show_user (accepting ''tok'') (Username ''admin'') (Some ''admin123'') None
                  (empty_browser, initial_auth)))) = Some ''tok''
   \<and> fst (login show_user (rejecting 401) (Username ''admin'') (Some ''wrong'') None
            (snd (login show_user (accepting ''tok'') (Username ''admin'') (Some ''admin123'') None
                    (empty_browser, initial_auth))))
       = Inl (status_error 401
               \<lparr>req_method = POST, req_url = AuthLogin, req_params = [],
                req_authorization = Some ''Bearer tok''\<rparr>)
   \<and> getItem ''access_token''
       (fst (snd (login show_user (rejecting 401) (Username ''admin'') (Some ''wrong'') None
            (snd (login show_user (accepting ''tok'') (Username ''admin'') (Some ''admin123'') None
                    (empty_browser, initial_auth)))))) = None"
  by (simp add: session_eval)


text \<open>
  Claim C6, as amended. \<open>isAuthenticated\<close> holds exactly when a user and a non-empty
  token are both set. It is false in the initial state and after the mount effect has
  read an empty store, false after \<open>logout\<close>, true after a fulfilled \<open>login\<close> whose
  response carries a non-empty token, and false in any state where the token or the user
  has been reset, whatever the other is.
\<close>

theorem isAuthenticated_needs_both:
  "(isAuthenticated a \<longleftrightarrow> (\<exists>u. st_user a = Some u) \<and> (\<exists>t. st_token a = Some t \<and> t \<noteq> []))
   \<and> \<not> isAuthenticated initial_auth
   \<and> (localStorage b = Map.empty \<longrightarrow>
        (\<exists>a'. boot json_parse b initial_auth = Inr a' \<and> \<not> isAuthenticated a'))
   \<and> \<not> isAuthenticated (snd (logout (b, a)))
   \<and> (net (credentials_of arg password country)
         (request_interceptor b (mk_request POST AuthLogin [])) = Inr response
       \<and> access_token response \<noteq> [] \<longrightarrow>
        isAuthenticated (snd (snd (login json_stringify net arg password country (b, a)))))
   \<and> \<not> isAuthenticated (setUser v (setToken None a))
   \<and> \<not> isAuthenticated (setToken w (setUser None a))"
proof (intro conjI impI)
  show "isAuthenticated a \<longleftrightarrow> (\<exists>u. st_user a = Some u) \<and> (\<exists>t. st_token a = Some t \<and> t \<noteq> [])"
    by (rule isAuthenticated_iff)
  show "\<not> isAuthenticated initial_auth"
    by (simp add: isAuthenticated_def initial_auth_def)
  show "\<exists>a'. boot json_parse b initial_auth = Inr a' \<and> \<not> isAuthenticated a'"
    if "localStorage b = Map.empty"
    by (simp add: boot_empty [OF that] isAuthenticated_def initial_auth_def setLoading_def)
  show "\<not> isAuthenticated (snd (logout (b, a)))"
    by (simp add: logout_def isAuthenticated_def setUser_def setToken_def)
  show "isAuthenticated (snd (snd (login json_stringify net arg password country (b, a))))"
    if "net (credentials_of arg password country)
         (request_interceptor b (mk_request POST AuthLogin [])) = Inr response
       \<and> access_token response \<noteq> []"
    using that
    by (simp add: login_fulfilled isAuthenticated_def truthy_string_def setUser_def setToken_def)
  show "\<not> isAuthenticated (setUser v (setToken None a))"
    by (simp add: isAuthenticated_def truthy_string_def setUser_def setToken_def)
  show "\<not> isAuthenticated (setToken w (setUser None a))"
    by (simp add: isAuthenticated_def setUser_def setToken_def)
qed

theorem isAuthenticated_needs_both_witness:
  "localStorage empty_browser = Map.empty
   \<and> (\<exists>a'. boot no_parse empty_browser initial_auth = Inr a'
          \<and> \<not> isAuthenticated a')
   \<and> isAuthenticated
        (snd (snd (login show_user (accepting ''tok'') (Username ''admin'') (Some ''admin123'')
                     None (empty_browser, initial_auth))))"
proof -
  have e: "localStorage empty_browser = Map.empty"
    by (simp add: empty_browser_def)
  have ok: "accepting ''tok'' (credentials_of (Username ''admin'') (Some ''admin123'') None)
              (request_interceptor empty_browser (mk_request POST AuthLogin []))
            = Inr \<lparr>access_token = ''tok'', token_type = ''bearer'', login_user = example_user\<rparr>
          \<and> access_token \<lparr>access_token = ''tok'', token_type = ''bearer'',
                            login_user = example_user\<rparr> \<noteq> []"
    by (simp add: accepting_def)
  from isAuthenticated_needs_both
    [where b = empty_browser and a = initial_auth and net = "accepting ''tok''"
       and arg = "Username ''admin''" and password = "Some ''admin123''" and country = None
       and json_stringify = show_user and json_parse = no_parse
       and response = "\<lparr>access_token = ''tok'', token_type = ''bearer'',
                           login_user = example_user\<rparr>"] e ok
  show ?thesis by blast
qed

theorem empty_token_login_counterexample:
  "fst (login show_user (accepting []) (Username ''admin'') (Some ''admin123'') None
          (empty_browser, initial_auth)) = Inr ()
   \<and> \<not> isAuthenticated
        (snd (snd (login show_user (accepting []) (Username ''admin'') (Some ''admin123'') None
                     (empty_browser, initial_auth))))"
  by (simp add: session_eval)


section \<open>Job poller: properties\<close>

subsection \<open>The interval invariant\<close>

lemma one_interval_init: "one_interval init_poller"
  by (simp add: one_interval_def init_poller_def)

lemma progress_inv_init: "progress_inv init_poller"
  by (simp add: progress_inv_def one_interval_def init_poller_def)

lemma intervals_clear_pollRef:
  assumes "one_interval s"
  shows "intervals (clear_pollRef s) = []"
proof (cases "pollRef s")
  case None
  with assms have "intervals s = []"
    by (cases "intervals s") (auto simp: one_interval_def)
  with None show ?thesis by (simp add: clear_pollRef_def)
next
  case (Some h)
  have all: "\<forall>x \<in> set (intervals s). fst x = h \<and> h \<noteq> 0"
    using assms Some by (auto simp: one_interval_def)
  show ?thesis
  proof (cases "h = 0")
    case True
    with all have "intervals s = []" by (cases "intervals s") auto
    with Some True show ?thesis by (simp add: clear_pollRef_def)
  next
    case False
    have "filter (\<lambda>x. fst x \<noteq> h) (intervals s) = []"
      using all by (simp add: filter_empty_conv)
    with Some False show ?thesis by (simp add: clear_pollRef_def clearInterval_def)
  qed
qed

lemma clear_pollRef_fields:
  "pollRef (clear_pollRef s) = pollRef s"
  "snapshot (clear_pollRef s) = snapshot s"
  "requests (clear_pollRef s) = requests s"
  "pending (clear_pollRef s) = pending s"
  "cleanup_registered (clear_pollRef s) = cleanup_registered s"
  "error_message (clear_pollRef s) = error_message s"
  "handles_issued (clear_pollRef s) = handles_issued s"
  by (simp_all add: clear_pollRef_def clearInterval_def split: option.split)

lemma set_intervals_clear_pollRef: "set (intervals (clear_pollRef s)) \<subseteq> set (intervals s)"
  by (auto simp: clear_pollRef_def clearInterval_def split: option.split)

lemma clear_pollRef_no_intervals: "intervals s = [] \<Longrightarrow> clear_pollRef s = s"
  by (simp add: clear_pollRef_def clearInterval_def split: option.split)

lemma clear_pollRef_idem: "clear_pollRef (clear_pollRef s) = clear_pollRef s"
  by (simp add: clear_pollRef_def clearInterval_def split: option.split)

lemma one_interval_clear_pollRef: "one_interval s \<Longrightarrow> one_interval (clear_pollRef s)"
  using set_intervals_clear_pollRef [of s]
  by (auto simp: one_interval_def clear_pollRef_fields)

lemma one_interval_request_status: "one_interval s \<Longrightarrow> one_interval (request_status i k s)"
  by (simp add: one_interval_def request_status_def)

lemma one_interval_interval_fire: "one_interval s \<Longrightarrow> one_interval (interval_fire h s)"
  by (simp add: interval_fire_def one_interval_request_status split: option.split)

lemma one_interval_snapshot: "one_interval (s\<lparr>snapshot := v\<rparr>) = one_interval s"
  by (simp add: one_interval_def)

lemma one_interval_error: "one_interval (s\<lparr>error_message := v\<rparr>) = one_interval s"
  by (simp add: one_interval_def)

lemma one_interval_pending: "one_interval (s\<lparr>pending := v\<rparr>) = one_interval s"
  by (simp add: one_interval_def)

lemma one_interval_resume: "one_interval s \<Longrightarrow> one_interval (resume k outcome s)"
  by (cases k; cases outcome)
     (simp_all add: resume_def Let_def one_interval_snapshot one_interval_error
        one_interval_clear_pollRef)

lemma one_interval_settle: "one_interval s \<Longrightarrow> one_interval (settle r outcome s)"
  by (simp add: settle_def one_interval_resume one_interval_pending split: option.split)

lemma one_interval_async: "one_interval s \<Longrightarrow> one_interval (async_step ev s)"
  by (cases ev) (simp_all add: one_interval_interval_fire one_interval_settle)

lemma one_interval_start:
  assumes "intervals s = []"
  shows "one_interval ((snd (setInterval i s))\<lparr>pollRef := Some (fst (setInterval i s))\<rparr>)"
  using assms by (simp add: one_interval_def setInterval_def Let_def)

lemma one_interval_pollStatus:
  assumes "one_interval s"
  shows "one_interval (pollStatus i s)"
proof -
  have "intervals (clear_pollRef (request_status i CrawlPageFirst s)) = []"
    using assms by (simp add: intervals_clear_pollRef one_interval_request_status)
  from one_interval_start [OF this, of i] show ?thesis
    by (simp add: pollStatus_def Let_def split_beta)
qed

lemma one_interval_crawlpage_step: "one_interval s \<Longrightarrow> one_interval (crawlpage_step ev s)"
  by (cases ev)
     (simp_all add: one_interval_pollStatus crawlpage_cleanup_def one_interval_clear_pollRef
        one_interval_async)

lemma one_interval_crawlpage_run: "one_interval s \<Longrightarrow> one_interval (crawlpage_run evs s)"
  by (induction evs arbitrary: s) (simp_all add: one_interval_crawlpage_step)

lemma async_fields:
  "cleanup_registered (async_step ev s) = cleanup_registered s"
  "set (intervals (async_step ev s)) \<subseteq> set (intervals s)"
proof -
  have r: "cleanup_registered (resume k outcome t) = cleanup_registered t" for k outcome and t :: "'a poller"
    by (cases k; cases outcome) (simp_all add: resume_def Let_def clear_pollRef_fields)
  show "cleanup_registered (async_step ev s) = cleanup_registered s"
    by (cases ev)
       (simp_all add: interval_fire_def request_status_def settle_def r split: option.split)
  have i: "set (intervals (resume k outcome t)) \<subseteq> set (intervals t)" for k outcome and t :: "'a poller"
    using set_intervals_clear_pollRef [of t]
      set_intervals_clear_pollRef [of "t\<lparr>snapshot := v\<rparr>" for v]
    by (cases k; cases outcome) (auto simp: resume_def Let_def)
  show "set (intervals (async_step ev s)) \<subseteq> set (intervals s)"
  proof (cases ev)
    case (Fire h)
    then show ?thesis
      by (simp add: interval_fire_def request_status_def split: option.split)
  next
    case (Settle r outcome)
    show ?thesis
    proof (cases "map_of (pending s) r")
      case None
      with Settle show ?thesis by (simp add: settle_def)
    next
      case (Some k)
      with Settle i [of k outcome "s\<lparr>pending := filter (\<lambda>x. fst x \<noteq> r) (pending s)\<rparr>"]
      show ?thesis by (simp add: settle_def)
    qed
  qed
qed

lemma progress_inv_async: "progress_inv s \<Longrightarrow> progress_inv (async_step ev s)"
  using async_fields(2) [of ev s]
  by (auto simp: progress_inv_def one_interval_async async_fields(1))

lemma run_registered_cleanup_intervals:
  assumes "progress_inv s"
  shows "intervals (run_registered_cleanup s) = []"
  using assms
  by (simp add: run_registered_cleanup_def progress_cleanup_def progress_inv_def
      intervals_clear_pollRef)

lemma progress_inv_cleanup:
  assumes "progress_inv s"
  shows "progress_inv (run_registered_cleanup s)"
  using run_registered_cleanup_intervals [OF assms]
  by (simp add: progress_inv_def one_interval_def)

lemma progress_inv_effect:
  assumes "intervals s = []"
  shows "progress_inv (progress_effect num p s)"
  using assms
  by (simp add: progress_inv_def one_interval_def progress_effect_def setInterval_def
      request_status_def Let_def)

lemma progress_inv_step: "progress_inv s \<Longrightarrow> progress_inv (progress_step num ev s)"
  by (cases ev)
     (simp_all add: progress_inv_effect run_registered_cleanup_intervals progress_inv_cleanup
        progress_inv_async)

lemma progress_inv_run: "progress_inv s \<Longrightarrow> progress_inv (progress_run num evs s)"
  by (induction evs arbitrary: s) (simp_all add: progress_inv_step)

subsection \<open>Poller: a poller without a live interval\<close>

lemma interval_fire_idle: "intervals s = [] \<Longrightarrow> interval_fire h s = s"
  by (simp add: interval_fire_def)

lemma resume_idle:
  assumes "intervals s = []"
  shows "intervals (resume k outcome s) = [] \<and> requests (resume k outcome s) = requests s"
  using assms
  by (cases k; cases outcome) (simp_all add: resume_def Let_def clear_pollRef_no_intervals)

lemma settle_idle:
  assumes "intervals s = []"
  shows "intervals (settle r outcome s) = [] \<and> requests (settle r outcome s) = requests s"
proof (cases "map_of (pending s) r")
  case None
  with assms show ?thesis by (simp add: settle_def)
next
  case (Some k)
  with assms resume_idle [of "s\<lparr>pending := filter (\<lambda>x. fst x \<noteq> r) (pending s)\<rparr>" k outcome]
  show ?thesis by (simp add: settle_def)
qed

lemma async_idle:
  assumes "intervals s = []"
  shows "intervals (async_step ev s) = [] \<and> requests (async_step ev s) = requests s"
  using assms by (cases ev) (simp_all add: interval_fire_idle settle_idle)

lemma crawlpage_step_idle:
  assumes "intervals s = []" and "crawlpage_no_start ev"
  shows "intervals (crawlpage_step ev s) = [] \<and> requests (crawlpage_step ev s) = requests s"
  using assms
  by (cases ev) (simp_all add: async_idle crawlpage_cleanup_def clear_pollRef_no_intervals)

lemma crawlpage_run_idle:
  assumes "intervals s = []" and "list_all crawlpage_no_start evs"
  shows "intervals (crawlpage_run evs s) = [] \<and> requests (crawlpage_run evs s) = requests s"
  using assms
proof (induction evs arbitrary: s)
  case Nil
  then show ?case by simp
next
  case (Cons ev evs)
  from Cons.prems have step: "intervals (crawlpage_step ev s) = []"
      "requests (crawlpage_step ev s) = requests s"
    using crawlpage_step_idle [of s ev] by simp_all
  from Cons.IH [OF step(1)] Cons.prems(2) step(2) show ?case by simp
qed

lemma run_registered_cleanup_idle:
  assumes "intervals s = []"
  shows "intervals (run_registered_cleanup s) = []
       \<and> requests (run_registered_cleanup s) = requests s"
  using assms
  by (simp add: run_registered_cleanup_def progress_cleanup_def clear_pollRef_no_intervals)

lemma progress_step_idle:
  assumes "intervals s = []" and "progress_no_start ev"
  shows "intervals (progress_step num ev s) = []
       \<and> requests (progress_step num ev s) = requests s"
  using assms
  by (cases ev) (simp_all add: async_idle run_registered_cleanup_idle)

lemma progress_run_idle:
  assumes "intervals s = []" and "list_all progress_no_start evs"
  shows "intervals (progress_run num evs s) = []
       \<and> requests (progress_run num evs s) = requests s"
  using assms
proof (induction evs arbitrary: s)
  case Nil
  then show ?case by simp
next
  case (Cons ev evs)
  from Cons.prems have step: "intervals (progress_step num ev s) = []"
      "requests (progress_step num ev s) = requests s"
    using progress_step_idle [of s ev num] by simp_all
  from Cons.IH [OF step(1)] Cons.prems(2) step(2) show ?case by simp
qed

lemma settle_tick_failed:
  assumes "one_interval s" and "map_of (pending s) r = Some IntervalTick"
  shows "intervals (settle r (Inl error) s) = []"
    and "snapshot (settle r (Inl error) s) = snapshot s"
    and "requests (settle r (Inl error) s) = requests s"
    and "pending (settle r (Inl error) s) = filter (\<lambda>x. fst x \<noteq> r) (pending s)"
proof -
  let ?s1 = "s\<lparr>pending := filter (\<lambda>x. fst x \<noteq> r) (pending s)\<rparr>"
  have eq: "settle r (Inl error) s = clear_pollRef ?s1"
    using assms(2) by (simp add: settle_def resume_def)
  have "one_interval ?s1" using assms(1) by (simp add: one_interval_pending)
  then show "intervals (settle r (Inl error) s) = []"
    unfolding eq by (rule intervals_clear_pollRef)
  show "snapshot (settle r (Inl error) s) = snapshot s"
    and "requests (settle r (Inl error) s) = requests s"
    and "pending (settle r (Inl error) s) = filter (\<lambda>x. fst x \<noteq> r) (pending s)"
    unfolding eq by (simp_all add: clear_pollRef_fields)
qed

lemma settle_tick_terminal:
  assumes "one_interval s" and "map_of (pending s) r = Some IntervalTick"
    and "is_terminal (cs_status status)"
  shows "intervals (settle r (Inr status) s) = []"
    and "snapshot (settle r (Inr status) s) = Some status"
    and "requests (settle r (Inr status) s) = requests s"
proof -
  let ?s1 = "s\<lparr>pending := filter (\<lambda>x. fst x \<noteq> r) (pending s), snapshot := Some status\<rparr>"
  have eq: "settle r (Inr status) s = clear_pollRef ?s1"
    using assms(2,3) by (simp add: settle_def resume_def Let_def)
  have "one_interval ?s1" using assms(1) by (simp add: one_interval_def)
  then show "intervals (settle r (Inr status) s) = []"
    unfolding eq by (rule intervals_clear_pollRef)
  show "snapshot (settle r (Inr status) s) = Some status"
    and "requests (settle r (Inr status) s) = requests s"
    unfolding eq by (simp_all add: clear_pollRef_fields)
qed

subsection \<open>Nothing live and nothing in flight\<close>

lemma async_at_rest: "at_rest s \<Longrightarrow> async_step ev s = s"
  by (cases ev) (simp_all add: at_rest_def interval_fire_def settle_def)

lemma crawlpage_step_at_rest:
  assumes "at_rest s" and "crawlpage_no_start ev"
  shows "crawlpage_step ev s = s"
  using assms
  by (cases ev)
     (simp_all add: async_at_rest crawlpage_cleanup_def clear_pollRef_no_intervals at_rest_def)

lemma crawlpage_run_at_rest:
  assumes "at_rest s" and "list_all crawlpage_no_start evs"
  shows "crawlpage_run evs s = s"
  using assms by (induction evs) (simp_all add: crawlpage_step_at_rest)

lemma progress_step_at_rest:
  assumes "at_rest s" and "progress_no_start ev"
  shows "at_rest (progress_step num ev s) \<and> snapshot (progress_step num ev s) = snapshot s"
  using assms
  by (cases ev)
     (simp_all add: async_at_rest run_registered_cleanup_def progress_cleanup_def
        clear_pollRef_no_intervals at_rest_def)

lemma progress_run_at_rest:
  assumes "at_rest s" and "list_all progress_no_start evs"
  shows "snapshot (progress_run num evs s) = snapshot s"
  using assms
proof (induction evs arbitrary: s)
  case Nil
  then show ?case by simp
next
  case (Cons ev evs)
  from Cons.prems progress_step_at_rest [of s ev num]
  have "at_rest (progress_step num ev s)" "snapshot (progress_step num ev s) = snapshot s"
    by simp_all
  with Cons.IH [of "progress_step num ev s"] Cons.prems(2) show ?case by simp
qed

lemma crawlpage_reachable: "one_interval (crawlpage_run evs init_poller)"
  by (simp add: one_interval_crawlpage_run one_interval_init)

lemma progress_reachable: "one_interval (progress_run num evs init_poller)"
  using progress_inv_run [OF progress_inv_init, of num evs] by (simp add: progress_inv_def)

lemma crawlpage_run_append:
  "crawlpage_run (evs @ evs') s = crawlpage_run evs' (crawlpage_run evs s)"
  by (induction evs arbitrary: s) simp_all

lemma progress_run_append:
  "progress_run num (evs @ evs') s = progress_run num evs' (progress_run num evs s)"
  by (induction evs arbitrary: s) simp_all

lemma settle_success_writes:
  assumes "map_of (pending s) r = Some k"
  shows "snapshot (settle r (Inr status) s) = Some status"
  using assms
  by (cases k) (simp_all add: settle_def resume_def Let_def clear_pollRef_fields)

lemma pollStatus_requests: "requests (pollStatus i s) = requests s @ [i]"
  by (simp add: pollStatus_def request_status_def setInterval_def Let_def clear_pollRef_fields
      split_beta)

lemma progress_effect_requests:
  assumes "crawlIdParam \<noteq> []"
  shows "requests (progress_effect num (Some crawlIdParam) (run_registered_cleanup s))
           = requests s @ [num crawlIdParam]"
  using assms
  by (simp add: progress_effect_def truthy_string_def request_status_def setInterval_def
      Let_def run_registered_cleanup_def progress_cleanup_def clear_pollRef_fields)

lemmas poller_eval =
  pollStatus_def crawlpage_cleanup_def progress_effect_def progress_cleanup_def
  run_registered_cleanup_def request_status_def setInterval_def clearInterval_def
  clear_pollRef_def interval_fire_def settle_def resume_def is_terminal_def init_poller_def
  status_with_def truthy_string_def Number_of_digits_def digit_value_def Let_def

lemma run_registered_cleanup_idem:
  "run_registered_cleanup (run_registered_cleanup s) = run_registered_cleanup s"
  by (simp add: run_registered_cleanup_def)

lemma run_registered_cleanup_fields:
  "snapshot (run_registered_cleanup s) = snapshot s"
  "pending (run_registered_cleanup s) = pending s"
  "requests (run_registered_cleanup s) = requests s"
  by (simp_all add: run_registered_cleanup_def progress_cleanup_def clear_pollRef_fields)

subsection \<open>Starting again, and requests left in flight\<close>

lemma handles_issued_resume: "handles_issued (resume k outcome s) = handles_issued s"
  by (cases k; cases outcome) (simp_all add: resume_def Let_def clear_pollRef_fields)

lemma handles_issued_async: "handles_issued (async_step ev s) = handles_issued s"
  by (cases ev)
     (simp_all add: interval_fire_def request_status_def settle_def handles_issued_resume
        split: option.split)

lemma handles_issued_cleanup:
  "handles_issued (run_registered_cleanup s) = handles_issued s"
  by (simp add: run_registered_cleanup_def progress_cleanup_def clear_pollRef_fields)

lemma handles_issued_crawlpage_run:
  assumes "list_all crawlpage_no_start evs"
  shows "handles_issued (crawlpage_run evs s) = handles_issued s"
  using assms
proof (induction evs arbitrary: s)
  case Nil
  then show ?case by simp
next
  case (Cons ev evs)
  then have "handles_issued (crawlpage_step ev s) = handles_issued s"
    by (cases ev) (simp_all add: handles_issued_async crawlpage_cleanup_def clear_pollRef_fields)
  with Cons show ?case by simp
qed

lemma handles_issued_progress_run:
  assumes "list_all progress_no_start evs"
  shows "handles_issued (progress_run num evs s) = handles_issued s"
  using assms
proof (induction evs arbitrary: s)
  case Nil
  then show ?case by simp
next
  case (Cons ev evs)
  then have "handles_issued (progress_step num ev s) = handles_issued s"
    by (cases ev) (simp_all add: handles_issued_async handles_issued_cleanup)
  with Cons show ?case by simp
qed

lemma pollStatus_arms:
  assumes "intervals s = []"
  shows "intervals (pollStatus i s) = [(Suc (handles_issued s), i)]"
    and "pollRef (pollStatus i s) = Some (Suc (handles_issued s))"
proof -
  have "clear_pollRef (request_status i CrawlPageFirst s) = request_status i CrawlPageFirst s"
    using assms by (intro clear_pollRef_no_intervals) (simp add: request_status_def)
  then show "intervals (pollStatus i s) = [(Suc (handles_issued s), i)]"
    and "pollRef (pollStatus i s) = Some (Suc (handles_issued s))"
    using assms by (simp_all add: pollStatus_def setInterval_def request_status_def Let_def)
qed

lemma progress_effect_arms:
  assumes "intervals s = []" and "crawlIdParam \<noteq> []"
  shows "intervals (progress_effect num (Some crawlIdParam) (run_registered_cleanup s))
           = [(Suc (handles_issued s), num crawlIdParam)]"
    and "pollRef (progress_effect num (Some crawlIdParam) (run_registered_cleanup s))
           = Some (Suc (handles_issued s))"
  using assms run_registered_cleanup_idle [of s]
  by (simp_all add: progress_effect_def truthy_string_def request_status_def setInterval_def
      Let_def handles_issued_cleanup)

lemma map_of_filter_other:
  assumes "r2 \<noteq> r"
  shows "map_of (filter (\<lambda>x. fst x \<noteq> r) xs) r2 = map_of xs r2"
  using assms by (induction xs) auto

lemma settle_failed_pending:
  assumes "map_of (pending s) r = Some IntervalTick"
  shows "pending (settle r (Inl error) s) = filter (\<lambda>x. fst x \<noteq> r) (pending s)"
  using assms by (simp add: settle_def resume_def clear_pollRef_fields)

lemma straggler_writes:
  assumes "map_of (pending s) r = Some IntervalTick" and "map_of (pending s) r2 = Some k"
    and "r2 \<noteq> r"
  shows "snapshot (settle r2 (Inr status) (settle r (Inl error) s)) = Some status"
proof -
  have "map_of (pending (settle r (Inl error) s)) r2 = Some k"
    using assms by (simp add: settle_failed_pending map_of_filter_other)
  then show ?thesis by (rule settle_success_writes)
qed

subsection \<open>The claims about the poller\<close>

text \<open>
  Claim C2, as amended. On either page, when a request issued by an interval tick settles
  with a terminal status (\<open>completed\<close>, \<open>failed\<close>, \<open>stopped\<close>), the snapshot becomes that
  status and no interval is left live; from then on interval firings, settling requests
  and teardown issue no further status request. A later start does: \<open>pollStatus\<close>, or the
  effect of Progress run for a non-empty \<open>crawl_id\<close>, issues a request at once and arms a
  new interval, which \<open>pollRef\<close> then holds, also for the job that has just ended.
\<close>

theorem terminal_tick_cancels_schedule:
  "(map_of (pending (crawlpage_run evs init_poller)) r = Some IntervalTick
      \<and> is_terminal (cs_status status) \<and> list_all crawlpage_no_start evs' \<longrightarrow>
      (let s = crawlpage_run evs (init_poller :: 'id poller);
           s' = settle r (Inr status) s
       in intervals s' = []
        \<and> snapshot s' = Some status
        \<and> requests s' = requests s
        \<and> requests (crawlpage_run evs' s') = requests s
        \<and> requests (crawlpage_run (evs' @ [PollStatus i]) s') = requests s @ [i]
        \<and> intervals (crawlpage_run (evs' @ [PollStatus i]) s')
            = [(Suc (handles_issued s'), i)]
        \<and> pollRef (crawlpage_run (evs' @ [PollStatus i]) s') = Some (Suc (handles_issued s'))))
   \<and> (map_of (pending (progress_run num pevs init_poller)) q = Some IntervalTick
      \<and> is_terminal (cs_status status) \<and> list_all progress_no_start pevs'
      \<and> crawlIdParam \<noteq> [] \<longrightarrow>
      (let s = progress_run num pevs (init_poller :: 'pid poller);
           s' = settle q (Inr status) s
       in intervals s' = []
        \<and> snapshot s' = Some status
        \<and> requests s' = requests s
        \<and> requests (progress_run num pevs' s') = requests s
        \<and> requests (progress_run num (pevs' @ [ProgressEffect (Some crawlIdParam)]) s')
            = requests s @ [num crawlIdParam]
        \<and> intervals (progress_run num (pevs' @ [ProgressEffect (Some crawlIdParam)]) s')
            = [(Suc (handles_issued s'), num crawlIdParam)]
        \<and> pollRef (progress_run num (pevs' @ [ProgressEffect (Some crawlIdParam)]) s')
            = Some (Suc (handles_issued s'))))"
proof (intro conjI impI)
  assume a: "map_of (pending (crawlpage_run evs init_poller)) r = Some IntervalTick
      \<and> is_terminal (cs_status status) \<and> list_all crawlpage_no_start evs'"
  define s :: "'id poller" where "s = crawlpage_run evs init_poller"
  define s' where "s' = settle r (Inr status) s"
  have inv: "one_interval s" by (simp add: s_def crawlpage_reachable)
  have p: "map_of (pending s) r = Some IntervalTick" using a by (simp add: s_def)
  have t: "is_terminal (cs_status status)" using a by simp
  note f = settle_tick_terminal [OF inv p t, folded s'_def]
  have idle: "requests (crawlpage_run evs' s') = requests s'"
    using crawlpage_run_idle [OF f(1)] a by simp
  have again: "requests (crawlpage_run (evs' @ [PollStatus i]) s') = requests s' @ [i]"
    using idle by (simp add: crawlpage_run_append pollStatus_requests)
  have quiet: "intervals (crawlpage_run evs' s') = []"
    using crawlpage_run_idle [OF f(1)] a by simp
  have h: "handles_issued (crawlpage_run evs' s') = handles_issued s'"
    using a by (simp add: handles_issued_crawlpage_run)
  have armed: "intervals (crawlpage_run (evs' @ [PollStatus i]) s') = [(Suc (handles_issued s'), i)]"
      "pollRef (crawlpage_run (evs' @ [PollStatus i]) s') = Some (Suc (handles_issued s'))"
    using pollStatus_arms [OF quiet, of i] h by (simp_all add: crawlpage_run_append)
  show "let s = crawlpage_run evs (init_poller :: 'id poller); s' = settle r (Inr status) s
       in intervals s' = [] \<and> snapshot s' = Some status \<and> requests s' = requests s
        \<and> requests (crawlpage_run evs' s') = requests s
        \<and> requests (crawlpage_run (evs' @ [PollStatus i]) s') = requests s @ [i]
        \<and> intervals (crawlpage_run (evs' @ [PollStatus i]) s')
            = [(Suc (handles_issued s'), i)]
        \<and> pollRef (crawlpage_run (evs' @ [PollStatus i]) s') = Some (Suc (handles_issued s'))"
    using f idle again armed by (simp add: Let_def s_def [symmetric] s'_def [symmetric])
next
  assume a: "map_of (pending (progress_run num pevs init_poller)) q = Some IntervalTick
      \<and> is_terminal (cs_status status) \<and> list_all progress_no_start pevs'
      \<and> crawlIdParam \<noteq> []"
  define s :: "'pid poller" where "s = progress_run num pevs init_poller"
  define s' where "s' = settle q (Inr status) s"
  have inv: "one_interval s" by (simp add: s_def progress_reachable)
  have p: "map_of (pending s) q = Some IntervalTick" using a by (simp add: s_def)
  have t: "is_terminal (cs_status status)" using a by simp
  note f = settle_tick_terminal [OF inv p t, folded s'_def]
  have idle: "requests (progress_run num pevs' s') = requests s'"
    using progress_run_idle [OF f(1)] a by simp
  have again: "requests (progress_run num (pevs' @ [ProgressEffect (Some crawlIdParam)]) s')
      = requests s' @ [num crawlIdParam]"
    using idle a by (simp add: progress_run_append progress_effect_requests)
  have quiet: "intervals (progress_run num pevs' s') = []"
    using progress_run_idle [OF f(1)] a by simp
  have h: "handles_issued (progress_run num pevs' s') = handles_issued s'"
    using a by (simp add: handles_issued_progress_run)
  have ne: "crawlIdParam \<noteq> []" using a by simp
  have armed: "intervals (progress_run num (pevs' @ [ProgressEffect (Some crawlIdParam)]) s')
        = [(Suc (handles_issued s'), num crawlIdParam)]"
      "pollRef (progress_run num (pevs' @ [ProgressEffect (Some crawlIdParam)]) s')
        = Some (Suc (handles_issued s'))"
    using progress_effect_arms [OF quiet ne, of num] h by (simp_all add: progress_run_append)
  show "let s = progress_run num pevs (init_poller :: 'pid poller); s' = settle q (Inr status) s
       in intervals s' = [] \<and> snapshot s' = Some status \<and> requests s' = requests s
        \<and> requests (progress_run num pevs' s') = requests s
        \<and> requests (progress_run num (pevs' @ [ProgressEffect (Some crawlIdParam)]) s')
            = requests s @ [num crawlIdParam]
        \<and> intervals (progress_run num (pevs' @ [ProgressEffect (Some crawlIdParam)]) s')
            = [(Suc (handles_issued s'), num crawlIdParam)]
        \<and> pollRef (progress_run num (pevs' @ [ProgressEffect (Some crawlIdParam)]) s')
            = Some (Suc (handles_issued s'))"
    using f idle again armed by (simp add: Let_def s_def [symmetric] s'_def [symmetric])
qed

theorem terminal_tick_cancels_schedule_witness:
  "map_of (pending (crawlpage_run [PollStatus 7, CrawlPageAsync (Fire 1)]
       (init_poller :: int poller))) 1 = Some IntervalTick
   \<and> is_terminal (cs_status (status_with ''completed''))
   \<and> list_all crawlpage_no_start
        ([CrawlPageAsync (Fire 1), CrawlPageCleanup] :: int crawlpage_event list)
   \<and> requests (crawlpage_run [CrawlPageAsync (Fire 1), CrawlPageCleanup]
        (settle 1 (Inr (status_with ''completed''))
          (crawlpage_run [PollStatus 7, CrawlPageAsync (Fire 1)] (init_poller :: int poller))))
       = [7, 7]
   \<and> requests (crawlpage_run ([CrawlPageAsync (Fire 1), CrawlPageCleanup] @ [PollStatus 7])
        (settle 1 (Inr (status_with ''completed''))
          (crawlpage_run [PollStatus 7, CrawlPageAsync (Fire 1)] (init_poller :: int poller))))
       = [7, 7] @ [7]
   \<and> intervals (crawlpage_run ([CrawlPageAsync (Fire 1), CrawlPageCleanup] @ [PollStatus 7])
        (settle 1 (Inr (status_with ''completed''))
          (crawlpage_run [PollStatus 7, CrawlPageAsync (Fire 1)] (init_poller :: int poller))))
       = [(Suc 1, 7)]
   \<and> pollRef (crawlpage_run ([CrawlPageAsync (Fire 1), CrawlPageCleanup] @ [PollStatus 7])
        (settle 1 (Inr (status_with ''completed''))
          (crawlpage_run [PollStatus 7, CrawlPageAsync (Fire 1)] (init_poller :: int poller))))
       = Some (Suc 1)
   \<and> map_of (pending (progress_run Number_of_digits [ProgressEffect (Some ''7''), ProgressAsync (Fire 1)]
       init_poller)) 1 = Some IntervalTick
   \<and> list_all progress_no_start [ProgressAsync (Fire 1)]
   \<and> ''7'' \<noteq> []
   \<and> requests (progress_run Number_of_digits [ProgressAsync (Fire 1)]
        (settle 1 (Inr (status_with ''completed''))
          (progress_run Number_of_digits [ProgressEffect (Some ''7''), ProgressAsync (Fire 1)]
             init_poller)))
       = [7, 7]
   \<and> requests (progress_run Number_of_digits ([ProgressAsync (Fire 1)] @ [ProgressEffect (Some ''7'')])
        (settle 1 (Inr (status_with ''completed''))
          (progress_run Number_of_digits [ProgressEffect (Some ''7''), ProgressAsync (Fire 1)]
             init_poller)))
       = [7, 7] @ [7]
   \<and> intervals (progress_run Number_of_digits
        ([ProgressAsync (Fire 1)] @ [ProgressEffect (Some ''7'')])
        (settle 1 (Inr (status_with ''completed''))
          (progress_run Number_of_digits [ProgressEffect (Some ''7''), ProgressAsync (Fire 1)]
             init_poller)))
       = [(Suc 1, 7)]
   \<and> pollRef (progress_run Number_of_digits
        ([ProgressAsync (Fire 1)] @ [ProgressEffect (Some ''7'')])
        (settle 1 (Inr (status_with ''completed''))
          (progress_run Number_of_digits [ProgressEffect (Some ''7''), ProgressAsync (Fire 1)]
             init_poller)))
       = Some (Suc 1)"
proof -
  let ?evs = "[PollStatus 7, CrawlPageAsync (Fire 1)] :: int crawlpage_event list"
  let ?evs' = "[CrawlPageAsync (Fire 1), CrawlPageCleanup] :: int crawlpage_event list"
  let ?pevs = "[ProgressEffect (Some ''7''), ProgressAsync (Fire 1)]"
  let ?pevs' = "[ProgressAsync (Fire 1)]"
  let ?s = "crawlpage_run ?evs (init_poller :: int poller)"
  let ?p = "progress_run Number_of_digits ?pevs (init_poller :: int poller)"
  have 1: "map_of (pending ?s) 1 = Some IntervalTick" "list_all crawlpage_no_start ?evs'"
    by (simp_all add: poller_eval)
  have 2: "is_terminal (cs_status (status_with ''completed''))"
    by (simp add: poller_eval)
  have 3: "requests ?s = [7, 7]"
    by (simp add: poller_eval)
  have 4: "map_of (pending ?p) 1 = Some IntervalTick" "list_all progress_no_start ?pevs'"
    by (simp_all add: poller_eval)
  have 5: "''7'' \<noteq> []" by simp
  have 6: "requests ?p = [7, 7]"
    by (simp add: poller_eval)
  have 7: "Number_of_digits ''7'' = 7"
    by (simp add: Number_of_digits_def digit_value_def)
  have 8: "handles_issued (settle 1 (Inr (status_with ''completed'')) ?s) = 1"
    "handles_issued (settle 1 (Inr (status_with ''completed'')) ?p) = 1"
    by (simp_all add: poller_eval)
  from terminal_tick_cancels_schedule
    [where evs = ?evs and r = 1 and evs' = ?evs' and status = "status_with ''completed''"
       and i = 7 and num = Number_of_digits and pevs = ?pevs and q = 1 and pevs' = ?pevs'
       and crawlIdParam = "''7''"]
    1 2 3 4 5 6 7 8
  show ?thesis
    by (simp only: Let_def simp_thms)
qed

theorem restart_after_terminal_counterexample:
  "snapshot (crawlpage_run
       [PollStatus 7, CrawlPageAsync (Fire 1),
        CrawlPageAsync (Settle 1 (Inr (status_with ''completed'')))] (init_poller :: int poller))
     = Some (status_with ''completed'')
   \<and> is_terminal (cs_status (status_with ''completed''))
   \<and> requests (crawlpage_run
       [PollStatus 7, CrawlPageAsync (Fire 1),
        CrawlPageAsync (Settle 1 (Inr (status_with ''completed'')))] (init_poller :: int poller))
     = [7, 7]
   \<and> requests (crawlpage_run
       [PollStatus 7, CrawlPageAsync (Fire 1),
        CrawlPageAsync (Settle 1 (Inr (status_with ''completed''))),
        PollStatus 7, CrawlPageAsync (Fire 2)] (init_poller :: int poller))
     = [7, 7, 7, 7]"
  by (simp add: poller_eval)

text \<open>
  Claim C3, as amended. The cleanup of either page changes nothing in a poller that was
  never started, and running it twice is the same as running it once. After it has run in
  any reachable state no interval is live, the snapshot, the requests in flight and the
  requests issued are as before, and interval firings, settling requests and further
  teardown issue no further request. If no request was in flight the snapshot stays as it
  is. A request that was in flight is not cancelled: when it is fulfilled after the
  cleanup, the code awaiting it stores the status it brings.
\<close>

theorem teardown_cancels_schedule:
  "crawlpage_cleanup (init_poller :: 'id poller) = init_poller
   \<and> crawlpage_cleanup (crawlpage_cleanup s0) = crawlpage_cleanup (s0 :: 'id poller)
   \<and> run_registered_cleanup (init_poller :: 'pid poller) = init_poller
   \<and> run_registered_cleanup (run_registered_cleanup p0) = run_registered_cleanup (p0 :: 'pid poller)
   \<and> (list_all crawlpage_no_start evs' \<longrightarrow>
        (let s = crawlpage_run evs (init_poller :: 'id poller);
             s' = crawlpage_cleanup s
         in intervals s' = []
          \<and> snapshot s' = snapshot s \<and> pending s' = pending s \<and> requests s' = requests s
          \<and> requests (crawlpage_run evs' s') = requests s
          \<and> (pending s = [] \<longrightarrow> snapshot (crawlpage_run evs' s') = snapshot s)))
   \<and> (list_all progress_no_start pevs' \<longrightarrow>
        (let s = progress_run num pevs (init_poller :: 'pid poller);
             s' = run_registered_cleanup s
         in intervals s' = []
          \<and> snapshot s' = snapshot s \<and> pending s' = pending s \<and> requests s' = requests s
          \<and> requests (progress_run num pevs' s') = requests s
          \<and> (pending s = [] \<longrightarrow> snapshot (progress_run num pevs' s') = snapshot s)))
   \<and> (map_of (pending s1) r = Some k \<longrightarrow>
        snapshot (settle r (Inr status) (crawlpage_cleanup (s1 :: 'id poller))) = Some status)
   \<and> (map_of (pending p1) q = Some k' \<longrightarrow>
        snapshot (settle q (Inr status') (run_registered_cleanup (p1 :: 'pid poller)))
          = Some status')"
proof (intro conjI impI)
  show "snapshot (settle r (Inr status) (crawlpage_cleanup s1)) = Some status"
    if "map_of (pending s1) r = Some k"
    using that
    by (intro settle_success_writes [where k = k])
       (simp add: crawlpage_cleanup_def clear_pollRef_fields)
  show "snapshot (settle q (Inr status') (run_registered_cleanup p1)) = Some status'"
    if "map_of (pending p1) q = Some k'"
    using that
    by (intro settle_success_writes [where k = k'])
       (simp add: run_registered_cleanup_fields)
  show "crawlpage_cleanup (init_poller :: 'id poller) = init_poller"
    by (simp add: crawlpage_cleanup_def clear_pollRef_def init_poller_def)
  show "crawlpage_cleanup (crawlpage_cleanup s0) = crawlpage_cleanup s0"
    by (simp add: crawlpage_cleanup_def clear_pollRef_idem)
  show "run_registered_cleanup (init_poller :: 'pid poller) = init_poller"
    by (simp add: run_registered_cleanup_def init_poller_def)
  show "run_registered_cleanup (run_registered_cleanup p0) = run_registered_cleanup p0"
    by (rule run_registered_cleanup_idem)
next
  assume a: "list_all crawlpage_no_start evs'"
  define s :: "'id poller" where "s = crawlpage_run evs init_poller"
  define s' where "s' = crawlpage_cleanup s"
  have i: "intervals s' = []"
    by (simp add: s'_def s_def crawlpage_cleanup_def intervals_clear_pollRef crawlpage_reachable)
  have f: "snapshot s' = snapshot s" "pending s' = pending s" "requests s' = requests s"
    by (simp_all add: s'_def crawlpage_cleanup_def clear_pollRef_fields)
  have idle: "requests (crawlpage_run evs' s') = requests s'"
    using crawlpage_run_idle [OF i a] by simp
  have rest: "snapshot (crawlpage_run evs' s') = snapshot s'" if "pending s = []"
    using crawlpage_run_at_rest [of s' evs'] i that a f(2) by (simp add: at_rest_def)
  show "let s = crawlpage_run evs (init_poller :: 'id poller); s' = crawlpage_cleanup s
         in intervals s' = []
          \<and> snapshot s' = snapshot s \<and> pending s' = pending s \<and> requests s' = requests s
          \<and> requests (crawlpage_run evs' s') = requests s
          \<and> (pending s = [] \<longrightarrow> snapshot (crawlpage_run evs' s') = snapshot s)"
    using i f idle rest by (simp add: Let_def s_def [symmetric] s'_def [symmetric])
next
  assume a: "list_all progress_no_start pevs'"
  define s :: "'pid poller" where "s = progress_run num pevs init_poller"
  define s' where "s' = run_registered_cleanup s"
  have "progress_inv s"
    by (simp add: s_def progress_inv_run progress_inv_init)
  then have i: "intervals s' = []"
    by (simp add: s'_def run_registered_cleanup_intervals)
  have f: "snapshot s' = snapshot s" "pending s' = pending s" "requests s' = requests s"
    by (simp_all add: s'_def run_registered_cleanup_fields)
  have idle: "requests (progress_run num pevs' s') = requests s'"
    using progress_run_idle [OF i a] by simp
  have rest: "snapshot (progress_run num pevs' s') = snapshot s'" if "pending s = []"
    using progress_run_at_rest [of s' pevs' num] i that a f(2) by (simp add: at_rest_def)
  show "let s = progress_run num pevs (init_poller :: 'pid poller); s' = run_registered_cleanup s
         in intervals s' = []
          \<and> snapshot s' = snapshot s \<and> pending s' = pending s \<and> requests s' = requests s
          \<and> requests (progress_run num pevs' s') = requests s
          \<and> (pending s = [] \<longrightarrow> snapshot (progress_run num pevs' s') = snapshot s)"
    using i f idle rest by (simp add: Let_def s_def [symmetric] s'_def [symmetric])
qed

theorem teardown_cancels_schedule_witness:
  "list_all crawlpage_no_start ([CrawlPageAsync (Fire 1), CrawlPageCleanup] :: int crawlpage_event list)
   \<and> pending (crawlpage_run
        [PollStatus 7, CrawlPageAsync (Settle 0 (Inr (status_with ''running'')))]
        (init_poller :: int poller)) = []
   \<and> snapshot (crawlpage_run [CrawlPageAsync (Fire 1), CrawlPageCleanup]
        (crawlpage_cleanup (crawlpage_run
           [PollStatus 7, CrawlPageAsync (Settle 0 (Inr (status_with ''running'')))]
           (init_poller :: int poller)))) = Some (status_with ''running'')
   \<and> list_all progress_no_start [ProgressAsync (Fire 1), ProgressCleanup]
   \<and> pending (progress_run Number_of_digits
        [ProgressEffect (Some ''7''), ProgressAsync (Settle 0 (Inr (status_with ''running'')))]
        init_poller) = []
   \<and> snapshot (progress_run Number_of_digits [ProgressAsync (Fire 1), ProgressCleanup]
        (run_registered_cleanup (progress_run Number_of_digits
           [ProgressEffect (Some ''7''), ProgressAsync (Settle 0 (Inr (status_with ''running'')))]
           init_poller))) = Some (status_with ''running'')
   \<and> map_of (pending (crawlpage_run [PollStatus 7, CrawlPageAsync (Fire 1)]
        (init_poller :: int poller))) 1 = Some IntervalTick
   \<and> snapshot (settle 1 (Inr (status_with ''running''))
        (crawlpage_cleanup (crawlpage_run [PollStatus 7, CrawlPageAsync (Fire 1)]
           (init_poller :: int poller)))) = Some (status_with ''running'')
   \<and> map_of (pending (progress_run Number_of_digits
        [ProgressEffect (Some ''7''), ProgressAsync (Fire 1)] init_poller)) 1
       = Some IntervalTick
   \<and> snapshot (settle 1 (Inr (status_with ''running''))
        (run_registered_cleanup (progress_run Number_of_digits
           [ProgressEffect (Some ''7''), ProgressAsync (Fire 1)] init_poller)))
       = Some (status_with ''running'')"
proof -
  let ?evs = "[PollStatus 7, CrawlPageAsync (Settle 0 (Inr (status_with ''running'')))]
    :: int crawlpage_event list"
  let ?evs' = "[CrawlPageAsync (Fire 1), CrawlPageCleanup] :: int crawlpage_event list"
  let ?pevs = "[ProgressEffect (Some ''7''),
    ProgressAsync (Settle 0 (Inr (status_with ''running'')))]"
  let ?pevs' = "[ProgressAsync (Fire 1), ProgressCleanup]"
  have 1: "list_all crawlpage_no_start ?evs'" by simp
  have 2: "pending (crawlpage_run ?evs (init_poller :: int poller)) = []"
    by (simp add: poller_eval)
  have 3: "snapshot (crawlpage_run ?evs (init_poller :: int poller))
      = Some (status_with ''running'')"
    by (simp add: poller_eval)
  have 4: "list_all progress_no_start ?pevs'" by simp
  have 5: "pending (progress_run Number_of_digits ?pevs (init_poller :: int poller)) = []"
    by (simp add: poller_eval)
  have 6: "snapshot (progress_run Number_of_digits ?pevs (init_poller :: int poller))
      = Some (status_with ''running'')"
    by (simp add: poller_eval)
  have 7: "map_of (pending (crawlpage_run [PollStatus 7, CrawlPageAsync (Fire 1)]
        (init_poller :: int poller))) 1 = Some IntervalTick"
    by (simp add: poller_eval)
  have 8: "map_of (pending (progress_run Number_of_digits
        [ProgressEffect (Some ''7''), ProgressAsync (Fire 1)] init_poller)) 1
       = Some IntervalTick"
    by (simp add: poller_eval)
  from teardown_cancels_schedule
    [where evs' = ?evs' and evs = ?evs and pevs' = ?pevs' and pevs = ?pevs
       and num = Number_of_digits
       and ?s1.0 = "crawlpage_run [PollStatus 7, CrawlPageAsync (Fire 1)] (init_poller :: int poller)"
       and r = 1 and k = IntervalTick and status = "status_with ''running''"
       and ?p1.0 = "progress_run Number_of_digits
                      [ProgressEffect (Some ''7''), ProgressAsync (Fire 1)] init_poller"
       and q = 1 and k' = IntervalTick and status' = "status_with ''running''"]
    1 2 3 4 5 6 7 8
  show ?thesis
    by (simp only: Let_def simp_thms)
qed

theorem inflight_write_after_teardown_counterexample:
  "intervals (progress_run Number_of_digits
       [ProgressEffect (Some ''7''), ProgressAsync (Fire 1), ProgressEffect None]
       init_poller) = []
   \<and> snapshot (progress_run Number_of_digits
       [ProgressEffect (Some ''7''), ProgressAsync (Fire 1), ProgressEffect None]
       init_poller) = None
   \<and> snapshot (progress_run Number_of_digits
       [ProgressEffect (Some ''7''), ProgressAsync (Fire 1), ProgressEffect None,
        ProgressAsync (Settle 1 (Inr (status_with ''running'')))]
       init_poller) = Some (status_with ''running'')"
  by (simp add: poller_eval)

text \<open>
  Claim C4, as amended. On either page, when a request issued by an interval tick is
  rejected, no interval is left live, the snapshot and the list of requests issued are as
  before, and from then on interval firings, settling requests and teardown issue no
  further request: there is no retry. If the rejected request was the only one in flight,
  the snapshot stays as it is. Another request that is still in flight is not cancelled:
  when it is fulfilled after the failure, the code awaiting it stores the status it
  brings.
\<close>

theorem failed_tick_ends_polling:
  "(map_of (pending (crawlpage_run evs init_poller)) r = Some IntervalTick
      \<and> list_all crawlpage_no_start evs' \<longrightarrow>
      (let s = crawlpage_run evs (init_poller :: 'id poller);
           s' = settle r (Inl error) s
       in intervals s' = []
        \<and> snapshot s' = snapshot s
        \<and> requests s' = requests s
        \<and> requests (crawlpage_run evs' s') = requests s
        \<and> (pending s' = [] \<longrightarrow> snapshot (crawlpage_run evs' s') = snapshot s)))
   \<and> (map_of (pending (progress_run num pevs init_poller)) q = Some IntervalTick
      \<and> list_all progress_no_start pevs' \<longrightarrow>
      (let s = progress_run num pevs (init_poller :: 'pid poller);
           s' = settle q (Inl error) s
       in intervals s' = []
        \<and> snapshot s' = snapshot s
        \<and> requests s' = requests s
        \<and> requests (progress_run num pevs' s') = requests s
        \<and> (pending s' = [] \<longrightarrow> snapshot (progress_run num pevs' s') = snapshot s)))
   \<and> (map_of (pending s1) r1 = Some IntervalTick \<and> map_of (pending s1) r2 = Some k
      \<and> r2 \<noteq> r1 \<longrightarrow>
      snapshot (settle r2 (Inr status) (settle r1 (Inl error) (s1 :: 'id poller)))
        = Some status)
   \<and> (map_of (pending p1) q1 = Some IntervalTick \<and> map_of (pending p1) q2 = Some k'
      \<and> q2 \<noteq> q1 \<longrightarrow>
      snapshot (settle q2 (Inr status') (settle q1 (Inl error) (p1 :: 'pid poller)))
        = Some status')"
proof (intro conjI impI)
  show "snapshot (settle r2 (Inr status) (settle r1 (Inl error) s1)) = Some status"
    if "map_of (pending s1) r1 = Some IntervalTick \<and> map_of (pending s1) r2 = Some k
      \<and> r2 \<noteq> r1"
    using that by (intro straggler_writes [where k = k]) simp_all
  show "snapshot (settle q2 (Inr status') (settle q1 (Inl error) p1)) = Some status'"
    if "map_of (pending p1) q1 = Some IntervalTick \<and> map_of (pending p1) q2 = Some k'
      \<and> q2 \<noteq> q1"
    using that by (intro straggler_writes [where k = k']) simp_all
next
  assume a: "map_of (pending (crawlpage_run evs init_poller)) r = Some IntervalTick
      \<and> list_all crawlpage_no_start evs'"
  define s :: "'id poller" where "s = crawlpage_run evs init_poller"
  define s' where "s' = settle r (Inl error) s"
  have inv: "one_interval s" by (simp add: s_def crawlpage_reachable)
  have p: "map_of (pending s) r = Some IntervalTick" using a by (simp add: s_def)
  note f = settle_tick_failed [OF inv p, of error, folded s'_def]
  have idle: "requests (crawlpage_run evs' s') = requests s'"
    using crawlpage_run_idle [OF f(1)] a by simp
  have rest: "snapshot (crawlpage_run evs' s') = snapshot s'" if "pending s' = []"
    using crawlpage_run_at_rest [of s' evs'] f(1) that a by (simp add: at_rest_def)
  show "let s = crawlpage_run evs (init_poller :: 'id poller); s' = settle r (Inl error) s
       in intervals s' = [] \<and> snapshot s' = snapshot s \<and> requests s' = requests s
        \<and> requests (crawlpage_run evs' s') = requests s
        \<and> (pending s' = [] \<longrightarrow> snapshot (crawlpage_run evs' s') = snapshot s)"
    using f(1,2,3) idle rest by (simp add: Let_def s_def [symmetric] s'_def [symmetric])
next
  assume a: "map_of (pending (progress_run num pevs init_poller)) q = Some IntervalTick
      \<and> list_all progress_no_start pevs'"
  define s :: "'pid poller" where "s = progress_run num pevs init_poller"
  define s' where "s' = settle q (Inl error) s"
  have inv: "one_interval s" by (simp add: s_def progress_reachable)
  have p: "map_of (pending s) q = Some IntervalTick" using a by (simp add: s_def)
  note f = settle_tick_failed [OF inv p, of error, folded s'_def]
  have idle: "requests (progress_run num pevs' s') = requests s'"
    using progress_run_idle [OF f(1)] a by simp
  have rest: "snapshot (progress_run num pevs' s') = snapshot s'" if "pending s' = []"
    using progress_run_at_rest [of s' pevs' num] f(1) that a by (simp add: at_rest_def)
  show "let s = progress_run num pevs (init_poller :: 'pid poller); s' = settle q (Inl error) s
       in intervals s' = [] \<and> snapshot s' = snapshot s \<and> requests s' = requests s
        \<and> requests (progress_run num pevs' s') = requests s
        \<and> (pending s' = [] \<longrightarrow> snapshot (progress_run num pevs' s') = snapshot s)"
    using f(1,2,3) idle rest by (simp add: Let_def s_def [symmetric] s'_def [symmetric])
qed

theorem failed_tick_ends_polling_witness:
  "map_of (pending (crawlpage_run
       [PollStatus 7, CrawlPageAsync (Settle 0 (Inr (status_with ''running''))),
        CrawlPageAsync (Fire 1)] (init_poller :: int poller))) 1 = Some IntervalTick
   \<and> list_all crawlpage_no_start
        ([CrawlPageAsync (Fire 1), CrawlPageCleanup] :: int crawlpage_event list)
   \<and> pending (settle 1 (Inl network_error) (crawlpage_run
       [PollStatus 7, CrawlPageAsync (Settle 0 (Inr (status_with ''running''))),
        CrawlPageAsync (Fire 1)] (init_poller :: int poller))) = []
   \<and> requests (crawlpage_run [CrawlPageAsync (Fire 1), CrawlPageCleanup]
        (settle 1 (Inl network_error) (crawlpage_run
          [PollStatus 7, CrawlPageAsync (Settle 0 (Inr (status_with ''running''))),
           CrawlPageAsync (Fire 1)] (init_poller :: int poller)))) = [7, 7]
   \<and> snapshot (crawlpage_run [CrawlPageAsync (Fire 1), CrawlPageCleanup]
        (settle 1 (Inl network_error) (crawlpage_run
          [PollStatus 7, CrawlPageAsync (Settle 0 (Inr (status_with ''running''))),
           CrawlPageAsync (Fire 1)] (init_poller :: int poller))))
       = Some (status_with ''running'')
   \<and> map_of (pending (progress_run Number_of_digits
       [ProgressEffect (Some ''7''), ProgressAsync (Settle 0 (Inr (status_with ''running''))),
        ProgressAsync (Fire 1)] init_poller)) 1 = Some IntervalTick
   \<and> list_all progress_no_start [ProgressAsync (Fire 1), ProgressCleanup]
   \<and> pending (settle 1 (Inl network_error) (progress_run Number_of_digits
       [ProgressEffect (Some ''7''), ProgressAsync (Settle 0 (Inr (status_with ''running''))),
        ProgressAsync (Fire 1)] init_poller)) = []
   \<and> requests (progress_run Number_of_digits [ProgressAsync (Fire 1), ProgressCleanup]
        (settle 1 (Inl network_error) (progress_run Number_of_digits
          [ProgressEffect (Some ''7''), ProgressAsync (Settle 0 (Inr (status_with ''running''))),
           ProgressAsync (Fire 1)] init_poller))) = [7, 7]
   \<and> snapshot (progress_run Number_of_digits [ProgressAsync (Fire 1), ProgressCleanup]
        (settle 1 (Inl network_error) (progress_run Number_of_digits
          [ProgressEffect (Some ''7''), ProgressAsync (Settle 0 (Inr (status_with ''running''))),
           ProgressAsync (Fire 1)] init_poller)))
       = Some (status_with ''running'')
   \<and> map_of (pending (crawlpage_run
        [PollStatus 7, CrawlPageAsync (Fire 1), CrawlPageAsync (Fire 1)]
        (init_poller :: int poller))) 2 = Some IntervalTick
   \<and> map_of (pending (crawlpage_run
        [PollStatus 7, CrawlPageAsync (Fire 1), CrawlPageAsync (Fire 1)]
        (init_poller :: int poller))) 1 = Some IntervalTick
   \<and> (1 :: nat) \<noteq> 2
   \<and> snapshot (settle 1 (Inr (status_with ''completed''))
        (settle 2 (Inl network_error)
          (crawlpage_run [PollStatus 7, CrawlPageAsync (Fire 1), CrawlPageAsync (Fire 1)]
             (init_poller :: int poller)))) = Some (status_with ''completed'')
   \<and> map_of (pending (progress_run Number_of_digits
        [ProgressEffect (Some ''7''), ProgressAsync (Fire 1)] init_poller)) 1
       = Some IntervalTick
   \<and> map_of (pending (progress_run Number_of_digits
        [ProgressEffect (Some ''7''), ProgressAsync (Fire 1)] init_poller)) 0
       = Some ProgressFirst
   \<and> (0 :: nat) \<noteq> 1
   \<and> snapshot (settle 0 (Inr (status_with ''running''))
        (settle 1 (Inl network_error)
          (progress_run Number_of_digits
             [ProgressEffect (Some ''7''), ProgressAsync (Fire 1)] init_poller)))
       = Some (status_with ''running'')"
proof -
  let ?evs = "[PollStatus 7, CrawlPageAsync (Settle 0 (Inr (status_with ''running''))),
    CrawlPageAsync (Fire 1)] :: int crawlpage_event list"
  let ?evs' = "[CrawlPageAsync (Fire 1), CrawlPageCleanup] :: int crawlpage_event list"
  let ?pevs = "[ProgressEffect (Some ''7''),
    ProgressAsync (Settle 0 (Inr (status_with ''running''))), ProgressAsync (Fire 1)]"
  let ?pevs' = "[ProgressAsync (Fire 1), ProgressCleanup]"
  let ?s = "crawlpage_run ?evs (init_poller :: int poller)"
  let ?p = "progress_run Number_of_digits ?pevs (init_poller :: int poller)"
  have 1: "map_of (pending ?s) 1 = Some IntervalTick" "list_all crawlpage_no_start ?evs'"
    by (simp_all add: poller_eval)
  have 2: "pending (settle 1 (Inl network_error) ?s) = []"
    by (simp add: poller_eval)
  have 3: "requests ?s = [7, 7]" "snapshot ?s = Some (status_with ''running'')"
    by (simp_all add: poller_eval)
  have 4: "map_of (pending ?p) 1 = Some IntervalTick" "list_all progress_no_start ?pevs'"
    by (simp_all add: poller_eval)
  have 5: "pending (settle 1 (Inl network_error) ?p) = []"
    by (simp add: poller_eval)
  have 6: "requests ?p = [7, 7]" "snapshot ?p = Some (status_with ''running'')"
    by (simp_all add: poller_eval)
  let ?s1 = "crawlpage_run [PollStatus 7, CrawlPageAsync (Fire 1), CrawlPageAsync (Fire 1)]
    (init_poller :: int poller)"
  let ?p1 = "progress_run Number_of_digits
    [ProgressEffect (Some ''7''), ProgressAsync (Fire 1)] (init_poller :: int poller)"
  have 7: "map_of (pending ?s1) 2 = Some IntervalTick" "map_of (pending ?s1) 1 = Some IntervalTick"
    "(1 :: nat) \<noteq> 2"
    by (simp_all add: poller_eval)
  have 8: "map_of (pending ?p1) 1 = Some IntervalTick" "map_of (pending ?p1) 0 = Some ProgressFirst"
    "(0 :: nat) \<noteq> 1"
    by (simp_all add: poller_eval)
  from failed_tick_ends_polling
    [where evs = ?evs and r = 1 and evs' = ?evs' and error = network_error
       and num = Number_of_digits and pevs = ?pevs and q = 1 and pevs' = ?pevs'
       and ?s1.0 = ?s1 and ?r1.0 = 2 and ?r2.0 = 1 and k = IntervalTick
       and status = "status_with ''completed''"
       and ?p1.0 = ?p1 and ?q1.0 = 1 and ?q2.0 = 0 and k' = ProgressFirst
       and status' = "status_with ''running''"]
    1 2 3 4 5 6 7 8
  show ?thesis
    by (simp only: Let_def simp_thms)
qed

theorem straggler_after_failed_tick_counterexample:
  "map_of (pending (crawlpage_run
       [PollStatus 7, CrawlPageAsync (Settle 0 (Inr (status_with ''running''))),
        CrawlPageAsync (Fire 1), CrawlPageAsync (Fire 1)] (init_poller :: int poller))) 2
     = Some IntervalTick
   \<and> snapshot (crawlpage_run
       [PollStatus 7, CrawlPageAsync (Settle 0 (Inr (status_with ''running''))),
        CrawlPageAsync (Fire 1), CrawlPageAsync (Fire 1),
        CrawlPageAsync (Settle 2 (Inl network_error))] (init_poller :: int poller))
     = Some (status_with ''running'')
   \<and> intervals (crawlpage_run
       [PollStatus 7, CrawlPageAsync (Settle 0 (Inr (status_with ''running''))),
        CrawlPageAsync (Fire 1), CrawlPageAsync (Fire 1),
        CrawlPageAsync (Settle 2 (Inl network_error))] (init_poller :: int poller))
     = []
   \<and> snapshot (crawlpage_run
       [PollStatus 7, CrawlPageAsync (Settle 0 (Inr (status_with ''running''))),
        CrawlPageAsync (Fire 1), CrawlPageAsync (Fire 1),
        CrawlPageAsync (Settle 2 (Inl network_error)),
        CrawlPageAsync (Settle 1 (Inr (status_with ''completed'')))] (init_poller :: int poller))
     = Some (status_with ''completed'')
   \<and> status_with ''completed'' \<noteq> status_with ''running''"
  by (simp add: poller_eval)

end
